theory Spec2Isabelle
  imports Main
begin

section \<open>JavaScript values as the SDK handles them\<close>

text \<open>
  The SDK works on decoded JSON and SOAP documents. A value is one of the JSON
  forms, or \<open>undefined\<close> (the result of reading a property that is not there).
  Numbers are restricted to integers (codes, times in milliseconds); an object is
  its list of own properties, the first entry for a name being the one read.
\<close>

datatype json =
    JUndefined
  | JNull
  | JBool bool
  | JNum int
  | JStr string
  | JArr "json list"
  | JObj "(string \<times> json) list"

text \<open>
  What a \<open>throw\<close> or a rejected promise carries: an Error object with its
  \<open>name\<close> and \<open>message\<close>, or any other value (the S3 reader throws a plain
  string, the store writer rejects with nothing, that is \<open>undefined\<close>).
\<close>

datatype exn =
    JsError string string
  | Thrown json

definition TypeError :: "string \<Rightarrow> exn" where
  "TypeError what = JsError ''TypeError'' (''Cannot read properties of '' @ what)"

definition new_Error :: "string \<Rightarrow> exn" where
  "new_Error msg = JsError ''Error'' msg"

fun is_TypeError :: "exn \<Rightarrow> bool" where
  "is_TypeError (JsError n m) = (n = ''TypeError'')"
| "is_TypeError (Thrown v) = False"

text \<open>ToBoolean: what \<open>if (v)\<close> and \<open>a && b\<close> test.\<close>

fun truthy :: "json \<Rightarrow> bool" where
  "truthy JUndefined = False"
| "truthy JNull = False"
| "truthy (JBool b) = b"
| "truthy (JNum n) = (n \<noteq> 0)"
| "truthy (JStr s) = (s \<noteq> [])"
| "truthy (JArr xs) = True"
| "truthy (JObj kvs) = True"

fun isArray :: "json \<Rightarrow> bool" where
  "isArray (JArr xs) = True"
| "isArray v = False"

text \<open>
  \<open>v.name\<close>: a TypeError on \<open>undefined\<close> and \<open>null\<close>, the own property of an
  object, \<open>undefined\<close> on everything else. The names the SDK reads (header,
  credentials, Errors, ...) are never built-in members of arrays, strings, numbers
  or booleans, so those read as \<open>undefined\<close>.
\<close>

fun get_prop :: "json \<Rightarrow> string \<Rightarrow> exn + json" where
  "get_prop JUndefined name = Inl (TypeError ''undefined'')"
| "get_prop JNull name = Inl (TypeError ''null'')"
| "get_prop (JObj kvs) name = Inr (case map_of kvs name of Some v \<Rightarrow> v | None \<Rightarrow> JUndefined)"
| "get_prop v name = Inr JUndefined"

text \<open>Decimal digits of a number, as ToString prints an integer.\<close>

fun dec_nat :: "nat \<Rightarrow> string" where
  "dec_nat n =
     (if n < 10 then [''0123456789'' ! n] else dec_nat (n div 10) @ [''0123456789'' ! (n mod 10)])"

definition dec_int :: "int \<Rightarrow> string" where
  "dec_int i = (if i < 0 then CHR ''-'' # dec_nat (nat (- i)) else dec_nat (nat i))"

text \<open>
  \<open>v[i]\<close>: a TypeError on \<open>undefined\<close> and \<open>null\<close>, the element of an array
  (\<open>undefined\<close> past its end), the property named by the index on an object, the
  character of a string.
\<close>

fun index :: "json \<Rightarrow> nat \<Rightarrow> exn + json" where
  "index JUndefined i = Inl (TypeError ''undefined'')"
| "index JNull i = Inl (TypeError ''null'')"
| "index (JArr xs) i = Inr (if i < length xs then xs ! i else JUndefined)"
| "index (JObj kvs) i = Inr (case map_of kvs (dec_nat i) of Some v \<Rightarrow> v | None \<Rightarrow> JUndefined)"
| "index (JStr s) i = Inr (if i < length s then JStr [s ! i] else JUndefined)"
| "index v i = Inr JUndefined"

text \<open>\<open>o.name = v\<close> on an object: the property is replaced in place or added.\<close>

fun set_own :: "(string \<times> json) list \<Rightarrow> string \<Rightarrow> json \<Rightarrow> (string \<times> json) list" where
  "set_own [] name v = [(name, v)]"
| "set_own ((k, w) # kvs) name v = (if k = name then (k, v) # kvs else (k, w) # set_own kvs name v)"

fun set_prop :: "json \<Rightarrow> string \<Rightarrow> json \<Rightarrow> json" where
  "set_prop (JObj kvs) name v = JObj (set_own kvs name v)"
| "set_prop u name v = u"

text \<open>\<open>Object.assign(target, source)\<close> on two objects.\<close>

fun Object_assign :: "(string \<times> json) list \<Rightarrow> (string \<times> json) list \<Rightarrow> (string \<times> json) list" where
  "Object_assign target [] = target"
| "Object_assign target ((k, v) # src) = Object_assign (set_own target k v) src"

text \<open>ToString, as a template literal applies it.\<close>

fun join_comma :: "string list \<Rightarrow> string" where
  "join_comma [] = []"
| "join_comma [s] = s"
| "join_comma (s # t # ss) = s @ '','' @ join_comma (t # ss)"

fun toString :: "json \<Rightarrow> string" where
  "toString JUndefined = ''undefined''"
| "toString JNull = ''null''"
| "toString (JBool b) = (if b then ''true'' else ''false'')"
| "toString (JNum n) = dec_int n"
| "toString (JStr s) = s"
| "toString (JArr xs) =
     join_comma (map (\<lambda>x. if x = JUndefined \<or> x = JNull then [] else toString x) xs)"
| "toString (JObj kvs) = ''[object Object]''"

text \<open>
  ToString of what was thrown: \<open>Error.prototype.toString\<close> gives the name, the
  message, or \<open>name: message\<close>.
\<close>

fun exn_toString :: "exn \<Rightarrow> string" where
  "exn_toString (JsError n m) = (if n = [] then m else if m = [] then n else n @ '': '' @ m)"
| "exn_toString (Thrown v) = toString v"

text \<open>\<open>e.message\<close> on what a \<open>catch\<close> received.\<close>

fun message :: "exn \<Rightarrow> exn + json" where
  "message (JsError n m) = Inr (JStr m)"
| "message (Thrown v) = get_prop v ''message''"

text \<open>
  \<open>a === b\<close> where one side is a primitive: same type and same value. (Two objects
  are compared by identity, which this model has not; the SDK never does.)
\<close>

fun strict_eq :: "json \<Rightarrow> json \<Rightarrow> bool" where
  "strict_eq (JArr xs) b = False"
| "strict_eq (JObj kvs) b = False"
| "strict_eq a b = (a = b)"

section \<open>The platform and the remote parties\<close>

text \<open>
  Everything the SDK calls but does not define is a field of the environment: the
  S3 client, the file system, the WSAA login service, the SOAP call of the base
  class \<open>AfipWebService\<close>, and the built-ins \<open>JSON\<close>, \<open>Date\<close>, the XML
  parser and the PKCS#7 signer. The outside world has a state \<open>'w\<close> that every
  call may change; the clock is read from it.
\<close>

datatype get_reply =
    GetThrows exn
  | GetResponse "string option"

record tra =
  tra_uniqueId :: int
  tra_generationTime :: string
  tra_expirationTime :: string
  tra_service :: string

record 'w env =
  s3_get :: "string \<Rightarrow> 'w \<Rightarrow> get_reply \<times> 'w"
  s3_put :: "string \<Rightarrow> string option \<Rightarrow> 'w \<Rightarrow> exn option \<times> 'w"
  JSON_parse :: "string \<Rightarrow> exn + json"
  JSON_stringify :: "json \<Rightarrow> string option"
  Date_now :: "'w \<Rightarrow> int"
  new_Date :: "json \<Rightarrow> int option"
  toISOString :: "int \<Rightarrow> string"
  StringToNumber :: "string \<Rightarrow> int option"
  fs_readFile :: "string \<Rightarrow> 'w \<Rightarrow> (exn + string) \<times> 'w"
  pkcs7_sign :: "tra \<Rightarrow> string \<Rightarrow> string \<Rightarrow> exn + string"
  soap_createClient :: "string \<Rightarrow> 'w \<Rightarrow> exn option \<times> 'w"
  loginCms :: "string \<Rightarrow> 'w \<Rightarrow> (exn + json) \<times> 'w"
  xml_parse :: "json \<Rightarrow> exn + json"
  ws_executeRequest :: "string \<Rightarrow> string \<Rightarrow> (string \<times> json) list \<Rightarrow> 'w \<Rightarrow> (exn + json) \<times> 'w"

text \<open>
  \<open>new_Date v\<close> is the time value of \<open>new Date(v)\<close> in milliseconds, \<open>None\<close> for
  an invalid date; \<open>StringToNumber s\<close> is the number a string converts to,
  \<open>None\<close> for NaN; \<open>JSON_stringify v\<close> is \<open>None\<close> where \<open>JSON.stringify\<close>
  returns \<open>undefined\<close>; \<open>GetResponse None\<close> is a reply without a body.
\<close>

text \<open>The calls that leave the process, in the order they are made.\<close>

datatype event =
    S3Get string
  | S3Put string "string option"
  | FsRead string
  | SoapClient string
  | LoginCms string
  | WsCall string string "(string \<times> json) list"

type_synonym 'w run = "'w \<times> event list"

text \<open>Sequencing: the first error ends the computation, as a throw does.\<close>

fun andThen :: "exn + 'a \<Rightarrow> ('a \<Rightarrow> exn + 'b) \<Rightarrow> exn + 'b" where
  "andThen (Inl e) f = Inl e"
| "andThen (Inr x) f = f x"

section \<open>S3Connection\<close>

text \<open>
  The class of \<open>Class/S3Connection.js\<close>, constructed from region and credentials
  as \<open>Afip\<close> constructs it. \<open>readFileS3\<close>: the body of the object, parsed, or
  \<open>null\<close> for an empty body; a reply without a body throws a string; every error
  is logged and thrown again. \<open>writeFileS3\<close> sends the body and throws what the
  client throws.
\<close>

definition readFileS3 :: "'w env \<Rightarrow> string \<Rightarrow> 'w run \<Rightarrow> (exn + json) \<times> 'w run" where
  "readFileS3 E fileName s =
     (case s3_get E fileName (fst s) of (reply, w') \<Rightarrow>
        (case reply of
           GetThrows e \<Rightarrow> Inl e
         | GetResponse None \<Rightarrow> Inl (Thrown (JStr ''No fue posible acceder a al archivo afip token''))
         | GetResponse (Some token) \<Rightarrow> (if token \<noteq> [] then JSON_parse E token else Inr JNull),
         (w', snd s @ [S3Get fileName])))"

definition writeFileS3 :: "'w env \<Rightarrow> string \<Rightarrow> string option \<Rightarrow> 'w run \<Rightarrow> (exn + unit) \<times> 'w run" where
  "writeFileS3 E fileName body s =
     (case s3_put E fileName body (fst s) of (r, w') \<Rightarrow>
        (case r of Some e \<Rightarrow> Inl e | None \<Rightarrow> Inr (),
         (w', snd s @ [S3Put fileName body])))"

section \<open>Afip: the ticket of authorization\<close>

record afip =
  CUIT :: json
  production :: bool
  CERT :: string
  PRIVATEKEY :: string
  WSAA_WSDL :: string

definition WSAA_URL :: "afip \<Rightarrow> string" where
  "WSAA_URL A =
     (if production A then ''https://wsaa.afip.gov.ar/ws/services/LoginCms''
      else ''https://wsaahomo.afip.gov.ar/ws/services/LoginCms'')"

text \<open>The name of the stored ticket, the same template in both functions.\<close>

definition taFilePath :: "afip \<Rightarrow> string \<Rightarrow> string" where
  "taFilePath A service =
     ''TA-'' @ toString (CUIT A) @ ''-'' @ service
       @ (if production A then ''-production'' else []) @ ''.json''"

record ticket =
  token :: json
  sign :: json

text \<open>
  \<open>CreateServiceTA\<close>: build the request, read certificate and key, sign, open the
  SOAP client, call \<open>loginCms\<close>, parse the answer, write
  \<open>res.loginticketresponse\<close> to the store. The two file reads are both made;
  where both fail the certificate's error is the one reported. A failed write
  rejects with no value.
\<close>

definition CreateServiceTA :: "'w env \<Rightarrow> afip \<Rightarrow> string \<Rightarrow> 'w run \<Rightarrow> (exn + unit) \<times> 'w run" where
  "CreateServiceTA E A service s =
     (let date = Date_now E (fst s);
          tra = \<lparr> tra_uniqueId = date div 1000,
                  tra_generationTime = toISOString E (date - 600000),
                  tra_expirationTime = toISOString E (date + 600000),
                  tra_service = service \<rparr>;
          (certR, w1) = fs_readFile E (CERT A) (fst s);
          (keyR, w2) = fs_readFile E (PRIVATEKEY A) w1;
          s2 = (w2, snd s @ [FsRead (CERT A), FsRead (PRIVATEKEY A)])
      in case andThen certR (\<lambda>cert. andThen keyR (\<lambda>key. pkcs7_sign E tra cert key)) of
           Inl e \<Rightarrow> (Inl e, s2)
         | Inr signedTRA \<Rightarrow>
             (case soap_createClient E (WSAA_URL A) w2 of (cr, w3) \<Rightarrow>
                (let s3 = (w3, snd s2 @ [SoapClient (WSAA_URL A)]) in
                 case cr of
                   Some e \<Rightarrow> (Inl e, s3)
                 | None \<Rightarrow>
                     (case loginCms E signedTRA w3 of (lr, w4) \<Rightarrow>
                        (let s4 = (w4, snd s3 @ [LoginCms signedTRA]) in
                         case andThen lr (\<lambda>loginCmsResult.
                              andThen (get_prop loginCmsResult ''loginCmsReturn'') (\<lambda>ret.
                              andThen (xml_parse E ret) (\<lambda>res.
                              get_prop res ''loginticketresponse''))) of
                           Inl e \<Rightarrow> (Inl e, s4)
                         | Inr ltr \<Rightarrow>
                             (case writeFileS3 E (taFilePath A service) (JSON_stringify E ltr) s4 of
                                (Inl e, s5) \<Rightarrow> (Inl (Thrown JUndefined), s5)
                              | (Inr u, s5) \<Rightarrow> (Inr (), s5)))))))"

text \<open>
  The catch around the first read: \<open>if (!e.message === '...') throw e\<close>. The
  negation binds first, so a boolean is compared with a string.
\<close>

definition rethrows :: "exn \<Rightarrow> exn + bool" where
  "rethrows e =
     andThen (message e)
       (\<lambda>m. Inr (strict_eq (JBool (\<not> truthy m)) (JStr ''The specified key does not exist.'')))"

definition read_afipDataToken :: "'w env \<Rightarrow> string \<Rightarrow> 'w run \<Rightarrow> (exn + json) \<times> 'w run" where
  "read_afipDataToken E taFile s =
     (case readFileS3 E taFile s of
        (Inr v, s1) \<Rightarrow> (Inr v, s1)
      | (Inl e, s1) \<Rightarrow>
          (case rethrows e of
             Inl te \<Rightarrow> (Inl te, s1)
           | Inr True \<Rightarrow> (Inl e, s1)
           | Inr False \<Rightarrow> (Inr JNull, s1)))"

text \<open>
  The block \<open>if (afipDataToken) { ... }\<close>: \<open>Some\<close> ticket when the record in
  the store is returned, \<open>None\<close> when control falls out of the block, an error
  when a property is read from \<open>undefined\<close> or \<open>null\<close>. Comparing with an
  invalid date is false.
\<close>

definition stored_ticket :: "'w env \<Rightarrow> int \<Rightarrow> json \<Rightarrow> exn + ticket option" where
  "stored_ticket E now afipDataToken =
     (if truthy afipDataToken then
        (let actualTime = now + 600000 in
         andThen (get_prop afipDataToken ''header'') (\<lambda>header.
         andThen (index header 1) (\<lambda>h1.
         andThen (get_prop h1 ''expirationtime'') (\<lambda>et.
           (case new_Date E et of
              None \<Rightarrow> Inr None
            | Some expirationTime \<Rightarrow>
                if actualTime < expirationTime then
                  andThen (get_prop afipDataToken ''credentials'') (\<lambda>c1.
                  andThen (get_prop c1 ''token'') (\<lambda>t.
                  andThen (get_prop afipDataToken ''credentials'') (\<lambda>c2.
                  andThen (get_prop c2 ''sign'') (\<lambda>g.
                    Inr (Some \<lparr> token = t, sign = g \<rparr>)))))
                else Inr None)))))
      else Inr None)"

function GetServiceTA :: "'w env \<Rightarrow> afip \<Rightarrow> string \<Rightarrow> bool \<Rightarrow> 'w run \<Rightarrow> (exn + ticket) \<times> 'w run" where
  "GetServiceTA E A service firstTry s =
     (case read_afipDataToken E (taFilePath A service) s of
        (Inl e, s1) \<Rightarrow> (Inl e, s1)
      | (Inr afipDataToken, s1) \<Rightarrow>
          (case stored_ticket E (Date_now E (fst s1)) afipDataToken of
             Inl e \<Rightarrow> (Inl e, s1)
           | Inr (Some t) \<Rightarrow> (Inr t, s1)
           | Inr None \<Rightarrow>
               if firstTry = False then
                 (Inl (new_Error ''Error getting Token Autorization''), s1)
               else
                 (case CreateServiceTA E A service s1 of
                    (Inl err, s2) \<Rightarrow>
                      (Inl (new_Error (''Error getting Token Autorization '' @ exn_toString err)), s2)
                  | (Inr u, s2) \<Rightarrow> GetServiceTA E A service False s2)))"
  by pat_completeness auto
termination
  by (relation "measure (\<lambda>(E, A, service, firstTry, s). if firstTry then 1 else 0)") auto

declare GetServiceTA.simps [simp del]

section \<open>ElectronicBilling (wsfe) and ExportElectronicBilling (wsfex)\<close>

text \<open>ToNumber (the unary plus) and the loose comparison \<open>v != 0\<close>.\<close>

fun ToNumber :: "'w env \<Rightarrow> json \<Rightarrow> int option" where
  "ToNumber E JUndefined = None"
| "ToNumber E JNull = Some 0"
| "ToNumber E (JBool b) = Some (if b then 1 else 0)"
| "ToNumber E (JNum n) = Some n"
| "ToNumber E (JStr s) = StringToNumber E s"
| "ToNumber E v = StringToNumber E (toString v)"

fun loose_ne_zero :: "'w env \<Rightarrow> json \<Rightarrow> bool" where
  "loose_ne_zero E JUndefined = True"
| "loose_ne_zero E JNull = True"
| "loose_ne_zero E v = (ToNumber E v \<noteq> Some 0)"

definition own :: "(string \<times> json) list \<Rightarrow> string \<Rightarrow> json" where
  "own params name = (case map_of params name of Some v \<Rightarrow> v | None \<Rightarrow> JUndefined)"

definition Auth :: "afip \<Rightarrow> ticket \<Rightarrow> (string \<times> json) list" where
  "Auth A t = [(''Token'', token t), (''Sign'', sign t), (''Cuit'', CUIT A)]"

definition getWSInitialRequest_wsfe ::
    "'w env \<Rightarrow> afip \<Rightarrow> string \<Rightarrow> 'w run \<Rightarrow> (exn + (string \<times> json) list) \<times> 'w run" where
  "getWSInitialRequest_wsfe E A operation s =
     (if operation = ''FEDummy'' then (Inr [], s)
      else
        (case GetServiceTA E A ''wsfe'' True s of
           (Inl e, s1) \<Rightarrow> (Inl e, s1)
         | (Inr t, s1) \<Rightarrow> (Inr [(''Auth'', JObj (Auth A t))], s1)))"

text \<open>
  \<open>_checkErrors\<close> of wsfe. It assigns into the response, so the model returns
  the result subtree as the check leaves it; a throw is \<open>Inl\<close>. The function has
  two blocks. The first, for \<open>FECAESolicitar\<close> with a truthy \<open>FeDetResp\<close>,
  replaces an array-shaped \<open>FECAEDetResponse\<close> by its first element and copies
  the observations of a detail that is not accepted into \<open>res.Errors\<close>.
\<close>

definition observed_errors :: "json \<Rightarrow> exn + json" where
  "observed_errors res =
     andThen (get_prop res ''FeDetResp'') (\<lambda>feDetResp.
     if truthy feDetResp then
       andThen (get_prop feDetResp ''FECAEDetResponse'') (\<lambda>det.
       andThen (if isArray det then index det 0 else Inr det) (\<lambda>det1.
       (let res1 = (if isArray det
                    then set_prop res ''FeDetResp'' (set_prop feDetResp ''FECAEDetResponse'' det1)
                    else res) in
        andThen (get_prop det1 ''Observaciones'') (\<lambda>obs.
        if truthy obs then
          andThen (get_prop det1 ''Resultado'') (\<lambda>resultado.
          if \<not> strict_eq resultado (JStr ''A'') then
            andThen (get_prop obs ''Obs'') (\<lambda>ob.
            Inr (set_prop res1 ''Errors'' (JObj [(''Err'', ob)])))
          else Inr res1)
        else Inr res1))))
     else Inr res)"

text \<open>The second block throws the first entry of \<open>res.Errors.Err\<close>.\<close>

definition thrown_errors :: "json \<Rightarrow> exn + json" where
  "thrown_errors res =
     andThen (get_prop res ''Errors'') (\<lambda>errors.
     if truthy errors then
       andThen (get_prop errors ''Err'') (\<lambda>errv.
       andThen (if isArray errv then index errv 0 else Inr errv) (\<lambda>err.
       andThen (get_prop err ''Code'') (\<lambda>code.
       andThen (get_prop err ''Msg'') (\<lambda>msg.
       Inl (new_Error (''('' @ toString code @ '') '' @ toString msg))))))
     else Inr res)"

definition checkErrors_wsfe :: "string \<Rightarrow> json \<Rightarrow> exn + json" where
  "checkErrors_wsfe operation results =
     andThen (get_prop results (operation @ ''Result'')) (\<lambda>res.
     andThen (if operation = ''FECAESolicitar'' then observed_errors res else Inr res)
       thrown_errors)"

text \<open>
  \<open>executeRequest\<close> of wsfe. \<open>super.executeRequest\<close> is the SOAP call of the
  base class, a field of the environment.
\<close>

definition executeRequest_wsfe ::
    "'w env \<Rightarrow> afip \<Rightarrow> string \<Rightarrow> (string \<times> json) list \<Rightarrow> 'w run \<Rightarrow> (exn + json) \<times> 'w run" where
  "executeRequest_wsfe E A operation params s =
     (case getWSInitialRequest_wsfe E A operation s of
        (Inl e, s1) \<Rightarrow> (Inl e, s1)
      | (Inr init, s1) \<Rightarrow>
          (let params1 = Object_assign params init in
           case ws_executeRequest E ''wsfe'' operation params1 (fst s1) of (r, w2) \<Rightarrow>
             (andThen r (checkErrors_wsfe operation),
              (w2, snd s1 @ [WsCall ''wsfe'' operation params1]))))"

definition getWSInitialRequest_wsfex ::
    "'w env \<Rightarrow> afip \<Rightarrow> string \<Rightarrow> (string \<times> json) list \<Rightarrow> 'w run
      \<Rightarrow> (exn + (string \<times> json) list) \<times> 'w run" where
  "getWSInitialRequest_wsfex E A operation params s =
     (if operation = ''FEDummy'' then (Inr [], s)
      else
        (case GetServiceTA E A ''wsfex'' True s of
           (Inl e, s1) \<Rightarrow> (Inl e, s1)
         | (Inr t, s1) \<Rightarrow>
             (Inr [(''Auth'',
                    JObj (if operation = ''FEXGetLast_CMP''
                          then set_own (set_own (Auth A t) ''Pto_venta'' (own params ''Pto_venta''))
                                 ''Cbte_Tipo'' (own params ''Cbte_Tipo'')
                          else Auth A t))], s1)))"

definition checkErrors_wsfex :: "'w env \<Rightarrow> string \<Rightarrow> json \<Rightarrow> exn + json" where
  "checkErrors_wsfex E operation results =
     andThen (get_prop results (operation @ ''Result'')) (\<lambda>res.
     andThen (get_prop res ''FEXErr'') (\<lambda>fexErr.
     if truthy fexErr then
       andThen (get_prop fexErr ''ErrCode'') (\<lambda>ec.
       if loose_ne_zero E ec then
         andThen (if isArray fexErr then index fexErr 0 else Inr fexErr) (\<lambda>err.
         andThen (get_prop err ''ErrCode'') (\<lambda>code.
         if ToNumber E code \<noteq> Some 0 then
           andThen (get_prop err ''ErrMsg'') (\<lambda>msg.
           Inl (new_Error (''('' @ toString code @ '') '' @ toString msg)))
         else Inr res))
       else Inr res)
     else Inr res))"

definition executeRequest_wsfex ::
    "'w env \<Rightarrow> afip \<Rightarrow> string \<Rightarrow> (string \<times> json) list \<Rightarrow> 'w run \<Rightarrow> (exn + json) \<times> 'w run" where
  "executeRequest_wsfex E A operation params s =
     (case getWSInitialRequest_wsfex E A operation params s of
        (Inl e, s1) \<Rightarrow> (Inl e, s1)
      | (Inr init, s1) \<Rightarrow>
          (let params1 = Object_assign params init in
           case ws_executeRequest E ''wsfex'' operation params1 (fst s1) of (r, w2) \<Rightarrow>
             (andThen r (checkErrors_wsfex E operation),
              (w2, snd s1 @ [WsCall ''wsfex'' operation params1]))))"

definition getServerStatus_wsfex :: "'w env \<Rightarrow> afip \<Rightarrow> 'w run \<Rightarrow> (exn + json) \<times> 'w run" where
  "getServerStatus_wsfex E A s = executeRequest_wsfex E A ''FEXDummy'' [] s"

text \<open>
  The remote answer to a request: the ticket was obtained (or not needed) and the
  SOAP call of the base class returned \<open>results\<close>.
\<close>

definition answers_wsfe ::
    "'w env \<Rightarrow> afip \<Rightarrow> string \<Rightarrow> (string \<times> json) list \<Rightarrow> 'w run \<Rightarrow> json \<Rightarrow> bool" where
  "answers_wsfe E A operation params s results =
     (case getWSInitialRequest_wsfe E A operation s of
        (Inl e, s1) \<Rightarrow> False
      | (Inr init, s1) \<Rightarrow>
          fst (ws_executeRequest E ''wsfe'' operation (Object_assign params init) (fst s1)) = Inr results)"

definition answers_wsfex ::
    "'w env \<Rightarrow> afip \<Rightarrow> string \<Rightarrow> (string \<times> json) list \<Rightarrow> 'w run \<Rightarrow> json \<Rightarrow> bool" where
  "answers_wsfex E A operation params s results =
     (case getWSInitialRequest_wsfex E A operation params s of
        (Inl e, s1) \<Rightarrow> False
      | (Inr init, s1) \<Rightarrow>
          fst (ws_executeRequest E ''wsfex'' operation (Object_assign params init) (fst s1)) = Inr results)"


text \<open>
  The result subtree with an array-shaped \<open>FeDetResp.FECAEDetResponse\<close> replaced
  by its first element, and unchanged otherwise.
\<close>

definition first_detail :: "json \<Rightarrow> json" where
  "first_detail res =
     (case get_prop res ''FeDetResp'' of
        Inr feDetResp \<Rightarrow>
          (case get_prop feDetResp ''FECAEDetResponse'' of
             Inr (JArr xs) \<Rightarrow>
               set_prop res ''FeDetResp''
                 (set_prop feDetResp ''FECAEDetResponse'' (case xs of [] \<Rightarrow> JUndefined | x # ys \<Rightarrow> x))
           | Inr det \<Rightarrow> res
           | Inl e \<Rightarrow> res)
      | Inl e \<Rightarrow> res)"

section \<open>Observing a run\<close>

text \<open>The calls of an issuance up to and including the login call.\<close>

definition login_trace :: "afip \<Rightarrow> string \<Rightarrow> event list" where
  "login_trace A signedTRA =
     [FsRead (CERT A), FsRead (PRIVATEKEY A), SoapClient (WSAA_URL A), LoginCms signedTRA]"

text \<open>The calls a computation added to the trace, and the kinds of call counted below.\<close>

definition new_events :: "'w run \<Rightarrow> 'a \<times> 'w run \<Rightarrow> event list" where
  "new_events s r = drop (length (snd s)) (snd (snd r))"


fun is_S3Put :: "event \<Rightarrow> bool" where
  "is_S3Put (S3Put k b) = True"
| "is_S3Put ev = False"


text \<open>An event that reads or writes the store does so under the given key.\<close>

fun uses_key :: "string \<Rightarrow> event \<Rightarrow> bool" where
  "uses_key key (S3Get k) = (k = key)"
| "uses_key key (S3Put k b) = (k = key)"
| "uses_key key ev = True"

section \<open>A small world to run the model in\<close>

text \<open>
  A bucket of objects, a clock, a file system, and one scripted answer each for
  the login service and the business service. Faults can be injected into the
  bucket. The JSON codec writes a value as text and reads back the documents of a
  fixed table; dates and login answers are read from tables as well.
\<close>

record sim =
  bucket :: "(string \<times> string) list"
  get_fault :: "exn option"
  put_fault :: "exn option"
  clock :: int
  files :: "(string \<times> string) list"
  login_reply :: "exn + json"
  ws_reply :: "exn + json"

definition quoted :: "string \<Rightarrow> string" where
  "quoted s = [CHR 0x22] @ s @ [CHR 0x22]"

fun JSON_text :: "json \<Rightarrow> string" where
  "JSON_text JUndefined = ''null''"
| "JSON_text JNull = ''null''"
| "JSON_text (JBool b) = (if b then ''true'' else ''false'')"
| "JSON_text (JNum n) = dec_int n"
| "JSON_text (JStr s) = quoted s"
| "JSON_text (JArr xs) = ''['' @ join_comma (map JSON_text xs) @ '']''"
| "JSON_text (JObj kvs) =
     ''{'' @ join_comma (map (\<lambda>kv. quoted (fst kv) @ '':'' @ JSON_text (snd kv))
                           (filter (\<lambda>kv. snd kv \<noteq> JUndefined) kvs)) @ ''}''"

definition record_of :: "string \<Rightarrow> json \<Rightarrow> json \<Rightarrow> json" where
  "record_of expiration tok sig =
     JObj [(''header'', JArr [JObj [(''version'', JStr ''1.0'')],
                              JObj [(''expirationtime'', JStr expiration)]]),
           (''credentials'', JObj [(''token'', tok), (''sign'', sig)])]"

definition fresh_record :: json where
  "fresh_record = record_of ''2030-01-01T00:00:00.000Z'' (JStr ''T1'') (JStr ''S1'')"

definition stale_record :: json where
  "stale_record = record_of ''2020-01-01T00:00:00.000Z'' (JStr ''T0'') (JStr ''S0'')"

definition undated_record :: json where
  "undated_record =
     JObj [(''header'', JArr [JObj [], JObj []]),
           (''credentials'', JObj [(''token'', JStr ''T0''), (''sign'', JStr ''S0'')])]"

definition headless_record :: json where
  "headless_record = JObj [(''credentials'', JObj [(''token'', JStr ''T0''), (''sign'', JStr ''S0'')])]"

definition partial_record :: json where
  "partial_record =
     JObj [(''header'', JArr [JObj [(''version'', JStr ''1.0'')],
                              JObj [(''expirationtime'', JStr ''2030-01-01T00:00:00.000Z'')]]),
           (''credentials'', JObj [(''token'', JStr ''T2'')])]"

definition sim_docs :: "json list" where
  "sim_docs = [fresh_record, stale_record, undated_record, headless_record, partial_record]"

definition sim_dates :: "(string \<times> int) list" where
  "sim_dates = [(''2030-01-01T00:00:00.000Z'', 1893456000000),
                (''2020-01-01T00:00:00.000Z'', 1577836800000)]"

fun sim_new_Date :: "json \<Rightarrow> int option" where
  "sim_new_Date (JStr s) = map_of sim_dates s"
| "sim_new_Date (JNum n) = Some n"
| "sim_new_Date v = None"

text \<open>Of the strings, this world converts the empty one and plain decimal digits.\<close>

definition sim_StringToNumber :: "string \<Rightarrow> int option" where
  "sim_StringToNumber s =
     (if list_all (\<lambda>c. 48 \<le> (of_char c :: nat) \<and> (of_char c :: nat) \<le> 57) s
      then Some (foldl (\<lambda>n c. 10 * n + (int (of_char c) - 48)) 0 s)
      else None)"

text \<open>The login service answers with a tag; the parser turns a tag into a document.\<close>

definition sim_xml :: "(string \<times> json) list" where
  "sim_xml = [(''fresh'', JObj [(''loginticketresponse'', fresh_record)]),
              (''stale'', JObj [(''loginticketresponse'', stale_record)]),
              (''partial'', JObj [(''loginticketresponse'', partial_record)]),
              (''empty'', JNull)]"

fun sim_xml_parse :: "json \<Rightarrow> exn + json" where
  "sim_xml_parse (JStr s) =
     (case map_of sim_xml s of
        Some doc \<Rightarrow> Inr doc
      | None \<Rightarrow> Inl (JsError ''Error'' ''Non-whitespace before first tag.''))"
| "sim_xml_parse v = Inl (JsError ''Error'' ''Non-whitespace before first tag.'')"

definition login_answer :: "string \<Rightarrow> exn + json" where
  "login_answer tag = Inr (JObj [(''loginCmsReturn'', JStr tag)])"

definition NoSuchKey :: exn where
  "NoSuchKey = JsError ''NoSuchKey'' ''The specified key does not exist.''"

definition AccessDenied :: exn where
  "AccessDenied = JsError ''AccessDenied'' ''Access Denied''"

definition sim_env :: "sim env" where
  "sim_env =
     \<lparr> s3_get = (\<lambda>key w.
          (case get_fault w of
             Some e \<Rightarrow> GetThrows e
           | None \<Rightarrow> (case map_of (bucket w) key of
                        None \<Rightarrow> GetThrows NoSuchKey
                      | Some body \<Rightarrow> GetResponse (Some body)), w)),
       s3_put = (\<lambda>key body w.
          (case put_fault w of
             Some e \<Rightarrow> (Some e, w)
           | None \<Rightarrow> (None, w\<lparr> bucket := (key, case body of None \<Rightarrow> [] | Some b \<Rightarrow> b) # bucket w \<rparr>))),
       JSON_parse = (\<lambda>text.
          (case find (\<lambda>doc. JSON_text doc = text) sim_docs of
             Some doc \<Rightarrow> Inr doc
           | None \<Rightarrow> Inl (JsError ''SyntaxError'' ''Unexpected token''))),
       JSON_stringify = (\<lambda>v. if v = JUndefined then None else Some (JSON_text v)),
       Date_now = clock,
       new_Date = sim_new_Date,
       toISOString = dec_int,
       StringToNumber = sim_StringToNumber,
       fs_readFile = (\<lambda>path w.
          (case map_of (files w) path of
             None \<Rightarrow> Inl (JsError ''Error'' ''ENOENT: no such file or directory'')
           | Some text \<Rightarrow> Inr text, w)),
       pkcs7_sign = (\<lambda>tra cert key. Inr (''signed:'' @ tra_service tra)),
       soap_createClient = (\<lambda>url w. (None, w)),
       loginCms = (\<lambda>signedTRA w. (login_reply w, w)),
       xml_parse = sim_xml_parse,
       ws_executeRequest = (\<lambda>service operation params w. (ws_reply w, w)) \<rparr>"

definition sim_afip :: afip where
  "sim_afip = \<lparr> CUIT = JNum 20111111112, production = False,
                 CERT = ''cert'', PRIVATEKEY = ''key'', WSAA_WSDL = ''wsaa.wsdl'' \<rparr>"

definition sim_afip_production :: afip where
  "sim_afip_production = sim_afip \<lparr> production := True \<rparr>"

definition sim_world :: "(string \<times> string) list \<Rightarrow> string \<Rightarrow> sim" where
  "sim_world objects tag =
     \<lparr> bucket = objects, get_fault = None, put_fault = None, clock = 1790000000000,
       files = [(''cert'', ''CERTIFICATE''), (''key'', ''PRIVATE KEY'')],
       login_reply = login_answer tag, ws_reply = Inr (JObj []) \<rparr>"

text \<open>Worlds for the ticket scenarios: what the bucket holds and what the login service answers.\<close>

definition wsfe_key :: string where
  "wsfe_key = ''TA-20111111112-wsfe.json''"

definition fresh_world :: sim where
  "fresh_world = sim_world [(wsfe_key, JSON_text fresh_record)] ''fresh''"


definition expired_world :: sim where
  "expired_world = sim_world [(wsfe_key, JSON_text stale_record)] ''fresh''"

definition headless_world :: sim where
  "headless_world = sim_world [(wsfe_key, JSON_text headless_record)] ''fresh''"

definition undated_world :: sim where
  "undated_world = sim_world [(wsfe_key, JSON_text undated_record)] ''fresh''"

definition denied_world :: sim where
  "denied_world = (sim_world [] ''fresh'') \<lparr> get_fault := Some AccessDenied \<rparr>"

definition partial_world :: sim where
  "partial_world = sim_world [] ''partial''"

text \<open>The calls of one issuance in this world, up to the write.\<close>

definition issue_events :: "event list" where
  "issue_events = [FsRead ''cert'', FsRead ''key'',
     SoapClient ''https://wsaahomo.afip.gov.ar/ws/services/LoginCms'', LoginCms ''signed:wsfe'']"

definition T1S1 :: ticket where
  "T1S1 = \<lparr> token = JStr ''T1'', sign = JStr ''S1'' \<rparr>"

text \<open>
  Worlds where the issuance goes wrong: the login service is down, it answers
  with nothing, it answers with text that is not XML, with an empty document, or
  the bucket refuses the write.
\<close>

definition down_world :: sim where
  "down_world = (sim_world [] ''fresh'') \<lparr> login_reply := Inl (JsError ''Error'' ''connect ECONNREFUSED'') \<rparr>"

definition null_login_world :: sim where
  "null_login_world = (sim_world [] ''fresh'') \<lparr> login_reply := Inr JNull \<rparr>"

definition garbage_world :: sim where
  "garbage_world = sim_world [] ''garbage''"

definition empty_xml_world :: sim where
  "empty_xml_world = sim_world [] ''empty''"

definition write_denied_world :: sim where
  "write_denied_world = (sim_world [] ''fresh'') \<lparr> put_fault := Some AccessDenied \<rparr>"

text \<open>Worlds for the billing scenarios: a fresh ticket in the bucket and a scripted remote answer.\<close>

definition wsfex_key :: string where
  "wsfex_key = ''TA-20111111112-wsfex.json''"

definition billing_world :: "string \<Rightarrow> json \<Rightarrow> sim" where
  "billing_world key reply = (sim_world [(key, JSON_text fresh_record)] ''fresh'') \<lparr> ws_reply := Inr reply \<rparr>"

definition sim_Auth :: "(string \<times> json) list" where
  "sim_Auth = [(''Auth'', JObj [(''Token'', JStr ''T1''), (''Sign'', JStr ''S1''), (''Cuit'', JNum 20111111112)])]"

definition server_status :: json where
  "server_status = JObj [(''AppServer'', JStr ''OK''), (''DbServer'', JStr ''OK''), (''AuthServer'', JStr ''OK'')]"











definition accepted_detail :: json where
  "accepted_detail = JObj [(''Resultado'', JStr ''A''), (''CAE'', JStr ''71234567890123'')]"

definition accepted_subtree :: json where
  "accepted_subtree =
     JObj [(''FeCabResp'', JObj [(''Resultado'', JStr ''A'')]),
           (''FeDetResp'', JObj [(''FECAEDetResponse'', JArr [accepted_detail])])]"

definition accepted_reply :: json where
  "accepted_reply = JObj [(''FECAESolicitarResult'', accepted_subtree)]"

definition last_voucher_subtree :: json where
  "last_voucher_subtree = JObj [(''PtoVta'', JNum 1), (''CbteTipo'', JNum 6), (''CbteNro'', JNum 26)]"

definition last_voucher_reply :: json where
  "last_voucher_reply = JObj [(''FECompUltimoAutorizadoResult'', last_voucher_subtree)]"

definition fex_ok_subtree :: json where
  "fex_ok_subtree =
     JObj [(''FEXResult_LastCMP'', JObj [(''Cbte_nro'', JNum 26)]),
           (''FEXErr'', JObj [(''ErrCode'', JNum 0), (''ErrMsg'', JStr ''OK'')])]"

definition fex_ok_reply :: json where
  "fex_ok_reply = JObj [(''FEXGetLast_CMPResult'', fex_ok_subtree)]"

section \<open>The stored ticket\<close>

lemma readFileS3_trace: "snd (snd (readFileS3 E k s)) = snd s @ [S3Get k]"
  by (simp add: readFileS3_def split: prod.splits)

lemma read_afipDataToken_trace: "snd (snd (read_afipDataToken E k s)) = snd s @ [S3Get k]"
  using readFileS3_trace [of E k s]
  by (auto simp: read_afipDataToken_def split: prod.splits sum.splits bool.splits)

lemma rethrows_JsError: "rethrows (JsError n m) = Inr False"
  by (simp add: rethrows_def)

lemma rethrows_never: "rethrows e \<noteq> Inr True"
proof (cases e)
  case (JsError n m)
  then show ?thesis by (simp add: rethrows_def)
next
  case (Thrown v)
  then show ?thesis by (cases v) (simp_all add: rethrows_def TypeError_def)
qed

lemma read_afipDataToken_found:
  "readFileS3 E k s = (Inr r, s1) \<Longrightarrow> read_afipDataToken E k s = (Inr r, s1)"
  by (simp add: read_afipDataToken_def)

lemma GetServiceTA_found:
  assumes "readFileS3 E (taFilePath A service) s = (Inr r, s1)"
  shows "GetServiceTA E A service firstTry s =
     (case stored_ticket E (Date_now E (fst s1)) r of
        Inl e \<Rightarrow> (Inl e, s1)
      | Inr (Some t) \<Rightarrow> (Inr t, s1)
      | Inr None \<Rightarrow>
          if firstTry = False then (Inl (new_Error ''Error getting Token Autorization''), s1)
          else (case CreateServiceTA E A service s1 of
                  (Inl err, s2) \<Rightarrow>
                    (Inl (new_Error (''Error getting Token Autorization '' @ exn_toString err)), s2)
                | (Inr u, s2) \<Rightarrow> GetServiceTA E A service False s2))"
  by (subst GetServiceTA.simps) (simp add: read_afipDataToken_found [OF assms])

text \<open>
  Claim C3. A stored record whose expiration time lies strictly after now plus ten
  minutes (600000 ms) is returned as it is stored: \<open>GetServiceTA\<close> answers with
  the record's token and sign, and the only call it made is the read of the store;
  no login request is sent and nothing is written.
\<close>

theorem fresh_ticket_is_returned:
  assumes "readFileS3 E (taFilePath A service) s = (Inr r, s1)"
    and "truthy r"
    and "get_prop r ''header'' = Inr h"
    and "index h 1 = Inr h1"
    and "get_prop h1 ''expirationtime'' = Inr et"
    and "new_Date E et = Some expiresAt"
    and "Date_now E (fst s1) + 600000 < expiresAt"
    and "get_prop r ''credentials'' = Inr c"
    and "get_prop c ''token'' = Inr tok"
    and "get_prop c ''sign'' = Inr sg"
  shows "GetServiceTA E A service firstTry s = (Inr \<lparr> token = tok, sign = sg \<rparr>, s1)
       \<and> snd s1 = snd s @ [S3Get (taFilePath A service)]"
proof -
  have "stored_ticket E (Date_now E (fst s1)) r = Inr (Some \<lparr> token = tok, sign = sg \<rparr>)"
    using assms(2-10) by (simp add: stored_ticket_def)
  moreover have "snd s1 = snd s @ [S3Get (taFilePath A service)]"
    using readFileS3_trace [of E "taFilePath A service" s] assms(1) by simp
  ultimately show ?thesis
    by (simp add: GetServiceTA_found [OF assms(1)])
qed

section \<open>Runs in the small world\<close>

lemma wsfe_key: "taFilePath sim_afip ''wsfe'' = wsfe_key"
  by (simp add: taFilePath_def sim_afip_def dec_int_def wsfe_key_def)

lemmas sim_records = fresh_record_def stale_record_def undated_record_def headless_record_def
  partial_record_def record_of_def

lemma sim_read:
  "get_fault w = None \<Longrightarrow> map_of (bucket w) k = Some body \<Longrightarrow> body \<noteq> [] \<Longrightarrow>
   JSON_parse sim_env body = Inr doc \<Longrightarrow>
   readFileS3 sim_env k (w, tr) = (Inr doc, (w, tr @ [S3Get k]))"
  by (simp add: readFileS3_def sim_env_def)

lemma sim_parse_fresh: "JSON_parse sim_env (JSON_text fresh_record) = Inr fresh_record"
  by (simp add: sim_env_def sim_docs_def)

lemma sim_parse_stale: "JSON_parse sim_env (JSON_text stale_record) = Inr stale_record"
  by (simp add: sim_env_def sim_docs_def sim_records quoted_def)

lemma sim_parse_undated: "JSON_parse sim_env (JSON_text undated_record) = Inr undated_record"
  by (simp add: sim_env_def sim_docs_def sim_records quoted_def)

lemma sim_parse_headless: "JSON_parse sim_env (JSON_text headless_record) = Inr headless_record"
  by (simp add: sim_env_def sim_docs_def sim_records quoted_def)

lemma sim_parse_partial: "JSON_parse sim_env (JSON_text partial_record) = Inr partial_record"
  by (simp add: sim_env_def sim_docs_def sim_records quoted_def)

lemma sim_docs_nonempty:
  "JSON_text fresh_record \<noteq> []" "JSON_text stale_record \<noteq> []" "JSON_text undated_record \<noteq> []"
  "JSON_text headless_record \<noteq> []" "JSON_text partial_record \<noteq> []"
  by (simp_all add: sim_records)

lemma sim_world_sel:
  "get_fault (sim_world objs tag) = None" "put_fault (sim_world objs tag) = None"
  "bucket (sim_world objs tag) = objs" "login_reply (sim_world objs tag) = login_answer tag"
  "files (sim_world objs tag) = [(''cert'', ''CERTIFICATE''), (''key'', ''PRIVATE KEY'')]"
  by (simp_all add: sim_world_def)

lemma sim_clock: "Date_now sim_env (sim_world objs tag) = 1790000000000"
  by (simp add: sim_env_def sim_world_def)

lemma sim_new_Date: "new_Date sim_env = sim_new_Date"
  by (simp add: sim_env_def)

theorem fresh_ticket_is_returned_witness:
  "GetServiceTA sim_env sim_afip ''wsfe'' True (fresh_world, []) =
     (Inr T1S1, (fresh_world, [S3Get wsfe_key]))"
proof -
  have rd: "readFileS3 sim_env (taFilePath sim_afip ''wsfe'') (fresh_world, []) =
     (Inr fresh_record, (fresh_world, [S3Get wsfe_key]))"
    unfolding wsfe_key
    using sim_read [of fresh_world wsfe_key "JSON_text fresh_record" fresh_record "[]"]
    by (simp add: fresh_world_def sim_world_sel sim_parse_fresh sim_docs_nonempty)
  have h2: "truthy fresh_record" by (simp add: sim_records)
  have h3: "get_prop fresh_record ''header'' = Inr (JArr [JObj [(''version'', JStr ''1.0'')],
       JObj [(''expirationtime'', JStr ''2030-01-01T00:00:00.000Z'')]])"
    by (simp add: sim_records)
  have h4: "index (JArr [JObj [(''version'', JStr ''1.0'')],
       JObj [(''expirationtime'', JStr ''2030-01-01T00:00:00.000Z'')]]) 1 =
       Inr (JObj [(''expirationtime'', JStr ''2030-01-01T00:00:00.000Z'')])"
    by simp
  have h5: "get_prop (JObj [(''expirationtime'', JStr ''2030-01-01T00:00:00.000Z'')]) ''expirationtime''
       = Inr (JStr ''2030-01-01T00:00:00.000Z'')"
    by simp
  have h6: "new_Date sim_env (JStr ''2030-01-01T00:00:00.000Z'') = Some 1893456000000"
    by (simp add: sim_new_Date sim_dates_def)
  have h7: "Date_now sim_env (fst (fresh_world, [S3Get wsfe_key])) + 600000 < 1893456000000"
    by (simp add: fresh_world_def sim_clock)
  have h8: "get_prop fresh_record ''credentials'' = Inr (JObj [(''token'', JStr ''T1''), (''sign'', JStr ''S1'')])"
    by (simp add: sim_records)
  have h9: "get_prop (JObj [(''token'', JStr ''T1''), (''sign'', JStr ''S1'')]) ''token'' = Inr (JStr ''T1'')"
    by simp
  have h10: "get_prop (JObj [(''token'', JStr ''T1''), (''sign'', JStr ''S1'')]) ''sign'' = Inr (JStr ''S1'')"
    by simp
  show ?thesis
    using fresh_ticket_is_returned [OF rd h2 h3 h4 h5 h6 h7 h8 h9 h10, of True] by (simp add: T1S1_def)
qed

text \<open>
  Claim C2. A stored record whose expiration time is at or before now plus ten
  minutes is never returned. The first call goes on to \<open>CreateServiceTA\<close> and
  answers with what the second pass finds (or with the error of the issuance);
  the second pass itself fails with the authorization error. The block that
  inspects the record gives the same outcome as it gives for \<open>null\<close>, the
  value of an absent object.
\<close>

theorem expired_ticket_is_refreshed:
  assumes "readFileS3 E (taFilePath A service) s = (Inr r, s1)"
    and "truthy r"
    and "get_prop r ''header'' = Inr h"
    and "index h 1 = Inr h1"
    and "get_prop h1 ''expirationtime'' = Inr et"
    and "new_Date E et = Some expiresAt"
    and "expiresAt \<le> Date_now E (fst s1) + 600000"
  shows "GetServiceTA E A service True s =
           (case CreateServiceTA E A service s1 of
              (Inl err, s2) \<Rightarrow>
                (Inl (new_Error (''Error getting Token Autorization '' @ exn_toString err)), s2)
            | (Inr u, s2) \<Rightarrow> GetServiceTA E A service False s2)
       \<and> GetServiceTA E A service False s =
           (Inl (new_Error ''Error getting Token Autorization''), s1)
       \<and> stored_ticket E (Date_now E (fst s1)) r = stored_ticket E (Date_now E (fst s1)) JNull"
proof -
  have "stored_ticket E (Date_now E (fst s1)) r = Inr None"
    using assms(2-7) by (simp add: stored_ticket_def)
  moreover have "stored_ticket E (Date_now E (fst s1)) JNull = Inr None"
    by (simp add: stored_ticket_def)
  ultimately show ?thesis
    by (simp add: GetServiceTA_found [OF assms(1)])
qed

text \<open>
  Claim C10, amended. A truthy stored record whose \<open>header\<close> is \<open>undefined\<close>
  or \<open>null\<close>, or whose \<open>header[1]\<close> is \<open>undefined\<close> or \<open>null\<close> (a missing
  or single-element header), makes \<open>GetServiceTA\<close> throw a TypeError right after
  the read: the record is not treated as absent, nothing is refreshed, and the
  authorization error is not raised.
\<close>

theorem malformed_header_TypeError:
  assumes "readFileS3 E (taFilePath A service) s = (Inr r, s1)"
    and "truthy r"
    and "get_prop r ''header'' = Inr h"
    and "h = JUndefined \<or> h = JNull \<or> index h 1 = Inr JUndefined \<or> index h 1 = Inr JNull"
  shows "\<exists>e. is_TypeError e \<and> GetServiceTA E A service firstTry s = (Inl e, s1)"
proof -
  have "\<exists>e. is_TypeError e \<and> stored_ticket E (Date_now E (fst s1)) r = Inl e"
    using assms(2-4) by (auto simp: stored_ticket_def TypeError_def)
  then show ?thesis
    by (auto simp: GetServiceTA_found [OF assms(1)])
qed

lemma read_error_swallowed:
  "readFileS3 E k s = (Inl (JsError n m), s1) \<Longrightarrow> read_afipDataToken E k s = (Inr JNull, s1)"
  by (simp add: read_afipDataToken_def rethrows_JsError)

lemma GetServiceTA_absent:
  assumes "read_afipDataToken E (taFilePath A service) s = (Inr JNull, s1)"
  shows "GetServiceTA E A service True s =
           (case CreateServiceTA E A service s1 of
              (Inl err, s2) \<Rightarrow>
                (Inl (new_Error (''Error getting Token Autorization '' @ exn_toString err)), s2)
            | (Inr u, s2) \<Rightarrow> GetServiceTA E A service False s2)"
    and "GetServiceTA E A service False s = (Inl (new_Error ''Error getting Token Autorization''), s1)"
  by (subst GetServiceTA.simps, simp add: assms stored_ticket_def)+


lemma sim_CreateServiceTA:
  assumes "map_of sim_xml tag = Some (JObj [(''loginticketresponse'', doc)])" and "doc \<noteq> JUndefined"
  shows "CreateServiceTA sim_env sim_afip ''wsfe'' (sim_world objs tag, tr) =
     (Inr (), (sim_world ((wsfe_key, JSON_text doc) # objs) tag,
               tr @ issue_events @ [S3Put wsfe_key (Some (JSON_text doc))]))"
  using assms
  by (simp add: CreateServiceTA_def Let_def writeFileS3_def WSAA_URL_def login_answer_def
      issue_events_def sim_env_def sim_world_def sim_afip_def taFilePath_def dec_int_def wsfe_key_def)

lemma sim_read_world:
  "map_of objs k = Some body \<Longrightarrow> body \<noteq> [] \<Longrightarrow> JSON_parse sim_env body = Inr doc \<Longrightarrow>
   readFileS3 sim_env k (sim_world objs tag, tr) = (Inr doc, (sim_world objs tag, tr @ [S3Get k]))"
  by (rule sim_read) (simp_all add: sim_world_sel)

lemma sim_stored_fresh: "stored_ticket sim_env 1790000000000 fresh_record = Inr (Some T1S1)"
  by (simp add: stored_ticket_def sim_records sim_new_Date sim_dates_def T1S1_def)

lemma sim_stored_stale: "stored_ticket sim_env 1790000000000 stale_record = Inr None"
  by (simp add: stored_ticket_def sim_records sim_new_Date sim_dates_def)

lemma sim_stored_undated: "stored_ticket sim_env 1790000000000 undated_record = Inr None"
  by (simp add: stored_ticket_def sim_records sim_new_Date)

lemma sim_xml_tags:
  "map_of sim_xml ''fresh'' = Some (JObj [(''loginticketresponse'', fresh_record)])"
  "map_of sim_xml ''stale'' = Some (JObj [(''loginticketresponse'', stale_record)])"
  "map_of sim_xml ''partial'' = Some (JObj [(''loginticketresponse'', partial_record)])"
  by (simp_all add: sim_xml_def)

lemma sim_docs_defined:
  "fresh_record \<noteq> JUndefined" "stale_record \<noteq> JUndefined" "partial_record \<noteq> JUndefined"
  by (simp_all add: sim_records)

text \<open>The second pass in a world whose newest object under the key is the fresh record.\<close>

lemma sim_second_pass_fresh:
  "GetServiceTA sim_env sim_afip ''wsfe'' False
      (sim_world ((wsfe_key, JSON_text fresh_record) # objs) tag, tr) =
   (Inr T1S1, (sim_world ((wsfe_key, JSON_text fresh_record) # objs) tag, tr @ [S3Get wsfe_key]))"
proof -
  have rd: "readFileS3 sim_env (taFilePath sim_afip ''wsfe'')
      (sim_world ((wsfe_key, JSON_text fresh_record) # objs) tag, tr) =
     (Inr fresh_record, (sim_world ((wsfe_key, JSON_text fresh_record) # objs) tag, tr @ [S3Get wsfe_key]))"
    unfolding wsfe_key
    by (rule sim_read_world [where body = "JSON_text fresh_record"])
       (simp_all add: sim_parse_fresh sim_docs_nonempty)
  show ?thesis
    by (simp add: GetServiceTA_found [OF rd] sim_clock sim_stored_fresh)
qed

lemma sim_second_pass_stale:
  "GetServiceTA sim_env sim_afip ''wsfe'' False
      (sim_world ((wsfe_key, JSON_text stale_record) # objs) tag, tr) =
   (Inl (new_Error ''Error getting Token Autorization''),
    (sim_world ((wsfe_key, JSON_text stale_record) # objs) tag, tr @ [S3Get wsfe_key]))"
proof -
  have rd: "readFileS3 sim_env (taFilePath sim_afip ''wsfe'')
      (sim_world ((wsfe_key, JSON_text stale_record) # objs) tag, tr) =
     (Inr stale_record, (sim_world ((wsfe_key, JSON_text stale_record) # objs) tag, tr @ [S3Get wsfe_key]))"
    unfolding wsfe_key
    by (rule sim_read_world [where body = "JSON_text stale_record"])
       (simp_all add: sim_parse_stale sim_docs_nonempty)
  show ?thesis
    by (simp add: GetServiceTA_found [OF rd] sim_clock sim_stored_stale)
qed

lemma sim_read_expired:
  "readFileS3 sim_env (taFilePath sim_afip ''wsfe'') (expired_world, []) =
     (Inr stale_record, (expired_world, [S3Get wsfe_key]))"
  unfolding wsfe_key expired_world_def
  using sim_read_world [of "[(wsfe_key, JSON_text stale_record)]" wsfe_key "JSON_text stale_record"
      stale_record "''fresh''" "[]"]
  by (simp add: sim_parse_stale sim_docs_nonempty)

theorem expired_ticket_is_refreshed_witness:
  "GetServiceTA sim_env sim_afip ''wsfe'' True (expired_world, []) =
     (Inr T1S1,
      (sim_world [(wsfe_key, JSON_text fresh_record), (wsfe_key, JSON_text stale_record)] ''fresh'',
       [S3Get wsfe_key] @ issue_events @ [S3Put wsfe_key (Some (JSON_text fresh_record)), S3Get wsfe_key]))
   \<and> GetServiceTA sim_env sim_afip ''wsfe'' False (expired_world, []) =
     (Inl (new_Error ''Error getting Token Autorization''), (expired_world, [S3Get wsfe_key]))"
proof -
  have h2: "truthy stale_record" by (simp add: sim_records)
  have h3: "get_prop stale_record ''header'' = Inr (JArr [JObj [(''version'', JStr ''1.0'')],
       JObj [(''expirationtime'', JStr ''2020-01-01T00:00:00.000Z'')]])"
    by (simp add: sim_records)
  have h4: "index (JArr [JObj [(''version'', JStr ''1.0'')],
       JObj [(''expirationtime'', JStr ''2020-01-01T00:00:00.000Z'')]]) 1 =
       Inr (JObj [(''expirationtime'', JStr ''2020-01-01T00:00:00.000Z'')])"
    by simp
  have h5: "get_prop (JObj [(''expirationtime'', JStr ''2020-01-01T00:00:00.000Z'')]) ''expirationtime''
       = Inr (JStr ''2020-01-01T00:00:00.000Z'')"
    by simp
  have h6: "new_Date sim_env (JStr ''2020-01-01T00:00:00.000Z'') = Some 1577836800000"
    by (simp add: sim_new_Date sim_dates_def)
  have h7: "1577836800000 \<le> Date_now sim_env (fst (expired_world, [S3Get wsfe_key])) + 600000"
    by (simp add: expired_world_def sim_clock)
  have issue: "CreateServiceTA sim_env sim_afip ''wsfe'' (expired_world, [S3Get wsfe_key]) =
      (Inr (), (sim_world [(wsfe_key, JSON_text fresh_record), (wsfe_key, JSON_text stale_record)] ''fresh'',
                [S3Get wsfe_key] @ issue_events @ [S3Put wsfe_key (Some (JSON_text fresh_record))]))"
    unfolding expired_world_def
    by (rule sim_CreateServiceTA) (simp_all add: sim_xml_tags sim_docs_defined)
  show ?thesis
    using expired_ticket_is_refreshed [OF sim_read_expired h2 h3 h4 h5 h6 h7]
    by (simp add: issue sim_second_pass_fresh)
qed

section \<open>Malformed records and failed reads\<close>

lemma sim_read_headless:
  "readFileS3 sim_env (taFilePath sim_afip ''wsfe'') (headless_world, []) =
     (Inr headless_record, (headless_world, [S3Get wsfe_key]))"
  unfolding wsfe_key headless_world_def
  using sim_read_world [of "[(wsfe_key, JSON_text headless_record)]" wsfe_key
      "JSON_text headless_record" headless_record "''fresh''" "[]"]
  by (simp add: sim_parse_headless sim_docs_nonempty)

theorem malformed_header_TypeError_witness:
  "is_TypeError (TypeError ''undefined'')
   \<and> GetServiceTA sim_env sim_afip ''wsfe'' True (headless_world, []) =
     (Inl (TypeError ''undefined''), (headless_world, [S3Get wsfe_key]))"
proof -
  have h2: "truthy headless_record" by (simp add: sim_records)
  have h3: "get_prop headless_record ''header'' = Inr JUndefined" by (simp add: sim_records)
  have h4: "JUndefined = JUndefined \<or> JUndefined = JNull \<or> index JUndefined 1 = Inr JUndefined
      \<or> index JUndefined 1 = Inr JNull" by simp
  have st: "stored_ticket sim_env 1790000000000 headless_record = Inl (TypeError ''undefined'')"
    by (simp add: stored_ticket_def sim_records)
  have clock: "Date_now sim_env headless_world = 1790000000000"
    by (simp add: headless_world_def sim_clock)
  have run: "GetServiceTA sim_env sim_afip ''wsfe'' True (headless_world, []) =
     (Inl (TypeError ''undefined''), (headless_world, [S3Get wsfe_key]))"
    by (simp add: GetServiceTA_found [OF sim_read_headless] clock st)
  from malformed_header_TypeError [OF sim_read_headless h2 h3 h4, of True]
  obtain e where "is_TypeError e"
    and "GetServiceTA sim_env sim_afip ''wsfe'' True (headless_world, []) =
      (Inl e, (headless_world, [S3Get wsfe_key]))"
    by blast
  with run show ?thesis by simp
qed

lemma sim_read_undated:
  "readFileS3 sim_env (taFilePath sim_afip ''wsfe'') (undated_world, []) =
     (Inr undated_record, (undated_world, [S3Get wsfe_key]))"
  unfolding wsfe_key undated_world_def
  using sim_read_world [of "[(wsfe_key, JSON_text undated_record)]" wsfe_key
      "JSON_text undated_record" undated_record "''fresh''" "[]"]
  by (simp add: sim_parse_undated sim_docs_nonempty)

text \<open>
  Claim C10 as stated fails on a record whose header has two elements, the second
  without an expiration time: reading \<open>expirationtime\<close> gives \<open>undefined\<close>,
  the date is invalid, the comparison is false, and the record is treated as
  expired. The first call refreshes and returns the new ticket; the second pass
  fails with the authorization error. Neither throws a TypeError.
\<close>

theorem undated_header_no_TypeError:
  "truthy undated_record
   \<and> get_prop undated_record ''header'' = Inr (JArr [JObj [], JObj []])
   \<and> get_prop (JObj []) ''expirationtime'' = Inr JUndefined
   \<and> GetServiceTA sim_env sim_afip ''wsfe'' True (undated_world, []) =
     (Inr T1S1,
      (sim_world [(wsfe_key, JSON_text fresh_record), (wsfe_key, JSON_text undated_record)] ''fresh'',
       [S3Get wsfe_key] @ issue_events @ [S3Put wsfe_key (Some (JSON_text fresh_record)), S3Get wsfe_key]))
   \<and> GetServiceTA sim_env sim_afip ''wsfe'' False (undated_world, []) =
     (Inl (new_Error ''Error getting Token Autorization''), (undated_world, [S3Get wsfe_key]))
   \<and> \<not> is_TypeError (new_Error ''Error getting Token Autorization'')"
proof -
  have issue: "CreateServiceTA sim_env sim_afip ''wsfe'' (undated_world, [S3Get wsfe_key]) =
      (Inr (), (sim_world [(wsfe_key, JSON_text fresh_record), (wsfe_key, JSON_text undated_record)] ''fresh'',
                [S3Get wsfe_key] @ issue_events @ [S3Put wsfe_key (Some (JSON_text fresh_record))]))"
    unfolding undated_world_def
    by (rule sim_CreateServiceTA) (simp_all add: sim_xml_tags sim_docs_defined)
  have clock: "Date_now sim_env undated_world = 1790000000000"
    by (simp add: undated_world_def sim_clock)
  show ?thesis
    by (simp add: GetServiceTA_found [OF sim_read_undated] clock sim_stored_undated issue
        sim_second_pass_fresh new_Error_def)
       (simp add: sim_records)
qed

lemma sim_read_denied:
  "readFileS3 sim_env k (sim_world objs tag \<lparr> get_fault := Some AccessDenied \<rparr>, tr) =
     (Inl AccessDenied, (sim_world objs tag \<lparr> get_fault := Some AccessDenied \<rparr>, tr @ [S3Get k]))"
  by (simp add: readFileS3_def sim_env_def)

lemma sim_CreateServiceTA_denied:
  assumes "map_of sim_xml tag = Some (JObj [(''loginticketresponse'', doc)])" and "doc \<noteq> JUndefined"
  shows "CreateServiceTA sim_env sim_afip ''wsfe'' (sim_world objs tag \<lparr> get_fault := Some AccessDenied \<rparr>, tr) =
     (Inr (), (sim_world ((wsfe_key, JSON_text doc) # objs) tag \<lparr> get_fault := Some AccessDenied \<rparr>,
               tr @ issue_events @ [S3Put wsfe_key (Some (JSON_text doc))]))"
  using assms
  by (simp add: CreateServiceTA_def Let_def writeFileS3_def WSAA_URL_def login_answer_def
      issue_events_def sim_env_def sim_world_def sim_afip_def taFilePath_def dec_int_def wsfe_key_def)

text \<open>
  Claim C1 on the code: the bucket answers the read with AccessDenied, an error
  other than "not found". \<open>readFileS3\<close> throws it, the catch in
  \<open>GetServiceTA\<close> compares \<open>!e.message\<close> (a boolean) with a string and so
  never throws it again: a ticket is issued and written, the second read fails the
  same way, and the caller gets the authorization error instead of AccessDenied.
\<close>

theorem read_error_is_swallowed:
  "readFileS3 sim_env (taFilePath sim_afip ''wsfe'') (denied_world, []) =
     (Inl AccessDenied, (denied_world, [S3Get wsfe_key]))
   \<and> GetServiceTA sim_env sim_afip ''wsfe'' True (denied_world, []) =
     (Inl (new_Error ''Error getting Token Autorization''),
      (sim_world [(wsfe_key, JSON_text fresh_record)] ''fresh'' \<lparr> get_fault := Some AccessDenied \<rparr>,
       [S3Get wsfe_key] @ issue_events @ [S3Put wsfe_key (Some (JSON_text fresh_record)), S3Get wsfe_key]))"
proof -
  let ?k = "taFilePath sim_afip ''wsfe''"
  have r1: "read_afipDataToken sim_env ?k (denied_world, []) = (Inr JNull, (denied_world, [S3Get wsfe_key]))"
    unfolding denied_world_def AccessDenied_def
    by (rule read_error_swallowed) (simp add: sim_read_denied [unfolded AccessDenied_def] wsfe_key)
  have issue: "CreateServiceTA sim_env sim_afip ''wsfe'' (denied_world, [S3Get wsfe_key]) =
      (Inr (), (sim_world [(wsfe_key, JSON_text fresh_record)] ''fresh'' \<lparr> get_fault := Some AccessDenied \<rparr>,
                [S3Get wsfe_key] @ issue_events @ [S3Put wsfe_key (Some (JSON_text fresh_record))]))"
    unfolding denied_world_def
    by (rule sim_CreateServiceTA_denied) (simp_all add: sim_xml_tags sim_docs_defined)
  have r2: "read_afipDataToken sim_env ?k
      (sim_world [(wsfe_key, JSON_text fresh_record)] ''fresh'' \<lparr> get_fault := Some AccessDenied \<rparr>, tr) =
     (Inr JNull, (sim_world [(wsfe_key, JSON_text fresh_record)] ''fresh'' \<lparr> get_fault := Some AccessDenied \<rparr>,
       tr @ [S3Get wsfe_key]))" for tr
    unfolding AccessDenied_def
    by (rule read_error_swallowed) (simp add: sim_read_denied [unfolded AccessDenied_def] wsfe_key)
  show ?thesis
    by (simp add: GetServiceTA_absent(1) [OF r1] issue GetServiceTA_absent(2) [OF r2])
       (simp add: denied_world_def sim_read_denied wsfe_key)
qed

section \<open>One refresh at most\<close>

lemma GetServiceTA_retry_events:
  "snd (snd (GetServiceTA E A service False s)) = snd s @ [S3Get (taFilePath A service)]"
  using read_afipDataToken_trace [of E "taFilePath A service" s]
  by (subst GetServiceTA.simps) (auto split: prod.splits sum.splits option.splits)


lemma new_events_append: "snd (snd r) = snd s @ evs \<Longrightarrow> new_events s r = evs"
  by (simp add: new_events_def)




section \<open>The key of the stored ticket\<close>

lemma CreateServiceTA_keys:
  "\<exists>evs. snd (snd (CreateServiceTA E A service s)) = snd s @ evs
     \<and> list_all (uses_key (taFilePath A service)) evs"
  by (auto simp: CreateServiceTA_def Let_def writeFileS3_def
      split: prod.splits sum.splits option.splits)

lemma CreateServiceTA_written:
  "fst (CreateServiceTA E A service s) = Inr () \<Longrightarrow>
   \<exists>body rest. new_events s (CreateServiceTA E A service s) = rest @ [S3Put (taFilePath A service) body]"
  by (auto simp: CreateServiceTA_def Let_def writeFileS3_def new_events_def
      split: prod.splits sum.splits option.splits)

lemma GetServiceTA_keys:
  "\<exists>rest. new_events s (GetServiceTA E A service firstTry s) = S3Get (taFilePath A service) # rest
     \<and> list_all (uses_key (taFilePath A service)) rest"
proof (cases firstTry)
  case False
  then show ?thesis
    by (simp add: new_events_append [OF GetServiceTA_retry_events])
next
  case True
  obtain r s1 where rd: "read_afipDataToken E (taFilePath A service) s = (r, s1)"
    by (cases "read_afipDataToken E (taFilePath A service) s")
  have tr1: "snd s1 = snd s @ [S3Get (taFilePath A service)]"
    using read_afipDataToken_trace [of E "taFilePath A service" s] rd by simp
  obtain c s2 where cr: "CreateServiceTA E A service s1 = (c, s2)"
    by (cases "CreateServiceTA E A service s1")
  obtain evs where tr2: "snd s2 = snd s1 @ evs" "list_all (uses_key (taFilePath A service)) evs"
    using CreateServiceTA_keys [of E A service s1] cr by auto
  have tr3: "snd (snd (GetServiceTA E A service False s2)) = snd s2 @ [S3Get (taFilePath A service)]"
    by (rule GetServiceTA_retry_events)
  show ?thesis
    unfolding True new_events_def
    using rd tr1 cr tr2 tr3
    by (subst GetServiceTA.simps) (auto split: sum.splits option.splits)
qed

lemma taFilePath_eq:
  assumes "CUIT A = CUIT B"
  shows "taFilePath A service = taFilePath B service' \<longleftrightarrow>
     service @ (if production A then ''-production'' else []) =
     service' @ (if production B then ''-production'' else [])"
  using assms by (simp add: taFilePath_def)

text \<open>
  Claim C9, amended. The read in \<open>GetServiceTA\<close> and the write in
  \<open>CreateServiceTA\<close> use the key \<open>TA-<CUIT>-<service>.json\<close> in the test
  environment and \<open>TA-<CUIT>-<service>-production.json\<close> in production: the
  first call of a run is the read under that key, every other access to the store
  in the run uses it, and a successful issuance ends with the write under it. For
  one CUIT, two tickets share a key exactly when they have the same service and
  environment, or when one is in production and the other is in the test
  environment for the service named as the first one's followed by
  \<open>-production\<close>. Every other pair of services and environments has two keys.
\<close>

theorem ticket_key:
  "taFilePath A service =
     ''TA-'' @ toString (CUIT A) @ ''-'' @ service @ (if production A then ''-production.json'' else ''.json'')
   \<and> (\<exists>rest. new_events s (GetServiceTA E A service firstTry s) = S3Get (taFilePath A service) # rest
          \<and> list_all (uses_key (taFilePath A service)) rest)
   \<and> list_all (uses_key (taFilePath A service)) (new_events s (CreateServiceTA E A service s))
   \<and> (fst (CreateServiceTA E A service s) = Inr () \<longrightarrow>
        (\<exists>body rest. new_events s (CreateServiceTA E A service s) = rest @ [S3Put (taFilePath A service) body]))
   \<and> (CUIT A = CUIT B \<longrightarrow>
        (taFilePath A service = taFilePath B service' \<longleftrightarrow>
           (production A = production B \<and> service = service')
           \<or> (production A \<and> \<not> production B \<and> service' = service @ ''-production'')
           \<or> (\<not> production A \<and> production B \<and> service = service' @ ''-production'')))"
proof -
  have keys: "list_all (uses_key (taFilePath A service)) (new_events s (CreateServiceTA E A service s))"
    using CreateServiceTA_keys [of E A service s] new_events_append by metis
  have eq: "taFilePath A service = taFilePath B service' \<longleftrightarrow>
           (production A = production B \<and> service = service')
           \<or> (production A \<and> \<not> production B \<and> service' = service @ ''-production'')
           \<or> (\<not> production A \<and> production B \<and> service = service' @ ''-production'')"
    if "CUIT A = CUIT B"
    unfolding taFilePath_eq [OF that] by auto
  have shape: "taFilePath A service =
     ''TA-'' @ toString (CUIT A) @ ''-'' @ service @ (if production A then ''-production.json'' else ''.json'')"
    by (simp add: taFilePath_def)
  show ?thesis
    using shape keys eq GetServiceTA_keys [of s E A service firstTry] CreateServiceTA_written [of E A service s]
    by blast
qed

text \<open>
  Claim C9 as stated fails where both the service and the environment differ:
  the service \<open>wsfe\<close> in production and a service named \<open>wsfe-production\<close> in
  the test environment have the same key.
\<close>

theorem ticket_key_collision:
  "production sim_afip_production \<noteq> production sim_afip
   \<and> ''wsfe'' \<noteq> ''wsfe-production''
   \<and> taFilePath sim_afip_production ''wsfe'' = taFilePath sim_afip ''wsfe-production''"
  by (simp add: taFilePath_def sim_afip_production_def sim_afip_def)

theorem ticket_key_witness:
  "taFilePath sim_afip ''wsfe'' = wsfe_key
   \<and> taFilePath sim_afip ''wsfe'' \<noteq> taFilePath sim_afip_production ''wsfe''
   \<and> taFilePath sim_afip ''wsfe'' \<noteq> taFilePath sim_afip ''wsfex''
   \<and> taFilePath sim_afip_production ''wsfe'' \<noteq> taFilePath sim_afip ''wsfex''
   \<and> taFilePath sim_afip_production ''wsfe'' = taFilePath sim_afip ''wsfe-production''
   \<and> (\<exists>body rest. new_events (expired_world, []) (CreateServiceTA sim_env sim_afip ''wsfe'' (expired_world, []))
          = rest @ [S3Put wsfe_key body])"
proof -
  have issue: "fst (CreateServiceTA sim_env sim_afip ''wsfe'' (expired_world, [])) = Inr ()"
    unfolding expired_world_def
    by (simp add: sim_CreateServiceTA [OF sim_xml_tags(1) sim_docs_defined(1)])
  have cuit: "CUIT sim_afip = CUIT sim_afip_production" "CUIT sim_afip_production = CUIT sim_afip"
    "CUIT sim_afip = CUIT sim_afip"
    by (simp_all add: sim_afip_production_def)
  have env: "\<not> production sim_afip" "production sim_afip_production"
    by (simp_all add: sim_afip_production_def sim_afip_def)
  note pair = ticket_key [THEN conjunct2, THEN conjunct2, THEN conjunct2, THEN conjunct2, rule_format]
  have d1: "taFilePath sim_afip ''wsfe'' \<noteq> taFilePath sim_afip_production ''wsfe''"
    using pair [where A = sim_afip and B = sim_afip_production and service = "''wsfe''"
        and service' = "''wsfe''", OF cuit(1)] env by simp
  have d2: "taFilePath sim_afip ''wsfe'' \<noteq> taFilePath sim_afip ''wsfex''"
    using pair [where A = sim_afip and B = sim_afip and service = "''wsfe''"
        and service' = "''wsfex''", OF cuit(3)] by simp
  have d3: "taFilePath sim_afip_production ''wsfe'' \<noteq> taFilePath sim_afip ''wsfex''"
    using pair [where A = sim_afip_production and B = sim_afip and service = "''wsfe''"
        and service' = "''wsfex''", OF cuit(2)] env by simp
  have d4: "taFilePath sim_afip_production ''wsfe'' = taFilePath sim_afip ''wsfe-production''"
    using pair [where A = sim_afip_production and B = sim_afip and service = "''wsfe''"
        and service' = "''wsfe-production''", OF cuit(2)] env by simp
  have d5: "\<exists>body rest. new_events (expired_world, []) (CreateServiceTA sim_env sim_afip ''wsfe'' (expired_world, []))
          = rest @ [S3Put (taFilePath sim_afip ''wsfe'') body]"
    using ticket_key [where A = sim_afip and service = "''wsfe''" and E = sim_env
        and s = "(expired_world, [])", THEN conjunct2, THEN conjunct2, THEN conjunct2, THEN conjunct1]
      issue by blast
  show ?thesis
    using d1 d2 d3 d4 d5 unfolding wsfe_key by blast
qed

section \<open>The issuance\<close>

lemma andThen_Inr: "andThen m f = Inr y \<longleftrightarrow> (\<exists>x. m = Inr x \<and> f x = Inr y)"
  by (cases m) simp_all

lemma andThen_Inl: "andThen m f = Inl e \<longleftrightarrow> m = Inl e \<or> (\<exists>x. m = Inr x \<and> f x = Inl e)"
  by (cases m) simp_all

lemma CreateServiceTA_at_login:
  assumes "fs_readFile E (CERT A) (fst s) = (Inr cert, w1)"
    and "fs_readFile E (PRIVATEKEY A) w1 = (Inr key, w2)"
    and "pkcs7_sign E \<lparr> tra_uniqueId = Date_now E (fst s) div 1000,
            tra_generationTime = toISOString E (Date_now E (fst s) - 600000),
            tra_expirationTime = toISOString E (Date_now E (fst s) + 600000),
            tra_service = service \<rparr> cert key = Inr signedTRA"
    and "soap_createClient E (WSAA_URL A) w2 = (None, w3)"
    and "loginCms E signedTRA w3 = (lr, w4)"
  shows "CreateServiceTA E A service s =
     (case andThen lr (\<lambda>loginCmsResult.
           andThen (get_prop loginCmsResult ''loginCmsReturn'') (\<lambda>ret.
           andThen (xml_parse E ret) (\<lambda>res.
           get_prop res ''loginticketresponse''))) of
        Inl e \<Rightarrow> (Inl e, (w4, snd s @ login_trace A signedTRA))
      | Inr ltr \<Rightarrow>
          (case s3_put E (taFilePath A service) (JSON_stringify E ltr) w4 of
             (None, w5) \<Rightarrow>
               (Inr (), (w5, snd s @ login_trace A signedTRA
                               @ [S3Put (taFilePath A service) (JSON_stringify E ltr)]))
           | (Some e, w5) \<Rightarrow>
               (Inl (Thrown JUndefined),
                (w5, snd s @ login_trace A signedTRA
                       @ [S3Put (taFilePath A service) (JSON_stringify E ltr)]))))"
  using assms
  by (simp add: CreateServiceTA_def Let_def writeFileS3_def login_trace_def
      split: sum.splits prod.splits option.splits)

lemma no_put_login_trace: "new_events s (r, (w, snd s @ login_trace A x)) = login_trace A x"
  "filter is_S3Put (login_trace A x) = []"
  by (simp_all add: new_events_def login_trace_def)

lemma CreateServiceTA_put_last:
  "S3Put k body \<in> set (new_events s (CreateServiceTA E A service s)) \<Longrightarrow>
   \<exists>pre x. new_events s (CreateServiceTA E A service s) = pre @ [S3Put k body]
     \<and> LoginCms x \<in> set pre \<and> filter is_S3Put pre = [] \<and> k = taFilePath A service"
  by (auto simp: CreateServiceTA_def Let_def writeFileS3_def new_events_def
      split: prod.splits sum.splits option.splits)

text \<open>
  Claim C7, amended. Take a run of \<open>CreateServiceTA\<close> that reaches its login
  call. If that call fails, if its result has no \<open>loginCmsReturn\<close> to read, if
  the XML parser rejects the answer, or if the parsed answer is \<open>null\<close>, the
  run fails with that very error right after the login call and writes nothing.
  Otherwise it writes the serialized \<open>loginticketresponse\<close> of the parsed
  answer under the ticket key, whatever that value is (no field of it is
  checked), and succeeds, or fails with no value when the write fails. In every
  run, a write is the last call, it is the only write, it uses the ticket key,
  and a login call came before it.
\<close>

theorem issuance_writes_after_parse:
  "(\<forall>k body. S3Put k body \<in> set (new_events s (CreateServiceTA E A service s)) \<longrightarrow>
      (\<exists>pre x. new_events s (CreateServiceTA E A service s) = pre @ [S3Put k body]
         \<and> LoginCms x \<in> set pre \<and> filter is_S3Put pre = [] \<and> k = taFilePath A service))
   \<and> (\<forall>cert w1 key w2 signedTRA w3 lr w4.
        fs_readFile E (CERT A) (fst s) = (Inr cert, w1)
        \<and> fs_readFile E (PRIVATEKEY A) w1 = (Inr key, w2)
        \<and> pkcs7_sign E
            \<lparr> tra_uniqueId = Date_now E (fst s) div 1000,
              tra_generationTime = toISOString E (Date_now E (fst s) - 600000),
              tra_expirationTime = toISOString E (Date_now E (fst s) + 600000),
              tra_service = service \<rparr> cert key = Inr signedTRA
        \<and> soap_createClient E (WSAA_URL A) w2 = (None, w3)
        \<and> loginCms E signedTRA w3 = (lr, w4)
        \<longrightarrow>
         (\<forall>e. lr = Inl e \<longrightarrow>
              CreateServiceTA E A service s = (Inl e, (w4, snd s @ login_trace A signedTRA))
              \<and> filter is_S3Put (new_events s (CreateServiceTA E A service s)) = [])
         \<and> (\<forall>r e. lr = Inr r \<and> get_prop r ''loginCmsReturn'' = Inl e \<longrightarrow>
              CreateServiceTA E A service s = (Inl e, (w4, snd s @ login_trace A signedTRA))
              \<and> filter is_S3Put (new_events s (CreateServiceTA E A service s)) = [])
         \<and> (\<forall>r ret e. lr = Inr r \<and> get_prop r ''loginCmsReturn'' = Inr ret
              \<and> xml_parse E ret = Inl e \<longrightarrow>
              CreateServiceTA E A service s = (Inl e, (w4, snd s @ login_trace A signedTRA))
              \<and> filter is_S3Put (new_events s (CreateServiceTA E A service s)) = [])
         \<and> (\<forall>r ret res e. lr = Inr r \<and> get_prop r ''loginCmsReturn'' = Inr ret
              \<and> xml_parse E ret = Inr res \<and> get_prop res ''loginticketresponse'' = Inl e \<longrightarrow>
              CreateServiceTA E A service s = (Inl e, (w4, snd s @ login_trace A signedTRA))
              \<and> filter is_S3Put (new_events s (CreateServiceTA E A service s)) = [])
         \<and> (\<forall>r ret res ltr w5. lr = Inr r \<and> get_prop r ''loginCmsReturn'' = Inr ret
              \<and> xml_parse E ret = Inr res \<and> get_prop res ''loginticketresponse'' = Inr ltr
              \<and> s3_put E (taFilePath A service) (JSON_stringify E ltr) w4 = (None, w5) \<longrightarrow>
              CreateServiceTA E A service s =
                (Inr (), (w5, snd s @ login_trace A signedTRA
                                @ [S3Put (taFilePath A service) (JSON_stringify E ltr)])))
         \<and> (\<forall>r ret res ltr e w5. lr = Inr r \<and> get_prop r ''loginCmsReturn'' = Inr ret
              \<and> xml_parse E ret = Inr res \<and> get_prop res ''loginticketresponse'' = Inr ltr
              \<and> s3_put E (taFilePath A service) (JSON_stringify E ltr) w4 = (Some e, w5) \<longrightarrow>
              CreateServiceTA E A service s =
                (Inl (Thrown JUndefined),
                 (w5, snd s @ login_trace A signedTRA
                        @ [S3Put (taFilePath A service) (JSON_stringify E ltr)]))))"
proof (intro conjI allI impI)
  fix k body
  assume "S3Put k body \<in> set (new_events s (CreateServiceTA E A service s))"
  then show "\<exists>pre x. new_events s (CreateServiceTA E A service s) = pre @ [S3Put k body]
         \<and> LoginCms x \<in> set pre \<and> filter is_S3Put pre = [] \<and> k = taFilePath A service"
    by (rule CreateServiceTA_put_last)
qed (auto simp: CreateServiceTA_at_login no_put_login_trace)

lemma sim_reaches_login:
  assumes "files w = [(''cert'', ''CERTIFICATE''), (''key'', ''PRIVATE KEY'')]"
  shows "fs_readFile sim_env (CERT sim_afip) (fst (w, tr)) = (Inr ''CERTIFICATE'', w)
     \<and> fs_readFile sim_env (PRIVATEKEY sim_afip) w = (Inr ''PRIVATE KEY'', w)
     \<and> pkcs7_sign sim_env
           \<lparr> tra_uniqueId = Date_now sim_env (fst (w, tr)) div 1000,
             tra_generationTime = toISOString sim_env (Date_now sim_env (fst (w, tr)) - 600000),
             tra_expirationTime = toISOString sim_env (Date_now sim_env (fst (w, tr)) + 600000),
             tra_service = ''wsfe'' \<rparr> ''CERTIFICATE'' ''PRIVATE KEY'' = Inr ''signed:wsfe''
     \<and> soap_createClient sim_env (WSAA_URL sim_afip) w = (None, w)
     \<and> loginCms sim_env ''signed:wsfe'' w = (login_reply w, w)"
  using assms by (simp add: sim_env_def sim_afip_def)

lemma sim_login_trace: "login_trace sim_afip ''signed:wsfe'' = issue_events"
  by (simp add: login_trace_def issue_events_def sim_afip_def WSAA_URL_def)

theorem issuance_writes_after_parse_witness:
  "CreateServiceTA sim_env sim_afip ''wsfe'' (down_world, []) =
     (Inl (JsError ''Error'' ''connect ECONNREFUSED''), (down_world, issue_events))
   \<and> CreateServiceTA sim_env sim_afip ''wsfe'' (null_login_world, []) =
     (Inl (TypeError ''null''), (null_login_world, issue_events))
   \<and> CreateServiceTA sim_env sim_afip ''wsfe'' (garbage_world, []) =
     (Inl (JsError ''Error'' ''Non-whitespace before first tag.''), (garbage_world, issue_events))
   \<and> CreateServiceTA sim_env sim_afip ''wsfe'' (empty_xml_world, []) =
     (Inl (TypeError ''null''), (empty_xml_world, issue_events))
   \<and> CreateServiceTA sim_env sim_afip ''wsfe'' (expired_world, []) =
     (Inr (), (sim_world [(wsfe_key, JSON_text fresh_record), (wsfe_key, JSON_text stale_record)] ''fresh'',
               issue_events @ [S3Put wsfe_key (Some (JSON_text fresh_record))]))
   \<and> CreateServiceTA sim_env sim_afip ''wsfe'' (write_denied_world, []) =
     (Inl (Thrown JUndefined),
      (write_denied_world, issue_events @ [S3Put wsfe_key (Some (JSON_text fresh_record))]))
   \<and> (\<exists>pre x. new_events (expired_world, []) (CreateServiceTA sim_env sim_afip ''wsfe'' (expired_world, []))
          = pre @ [S3Put wsfe_key (Some (JSON_text fresh_record))]
        \<and> LoginCms x \<in> set pre \<and> filter is_S3Put pre = [])"
proof -
  note run = issuance_writes_after_parse [where E = sim_env and A = sim_afip and service = "''wsfe''",
      THEN conjunct2, rule_format, OF sim_reaches_login]
  have files: "files down_world = [(''cert'', ''CERTIFICATE''), (''key'', ''PRIVATE KEY'')]"
    "files null_login_world = [(''cert'', ''CERTIFICATE''), (''key'', ''PRIVATE KEY'')]"
    "files garbage_world = [(''cert'', ''CERTIFICATE''), (''key'', ''PRIVATE KEY'')]"
    "files empty_xml_world = [(''cert'', ''CERTIFICATE''), (''key'', ''PRIVATE KEY'')]"
    "files expired_world = [(''cert'', ''CERTIFICATE''), (''key'', ''PRIVATE KEY'')]"
    "files write_denied_world = [(''cert'', ''CERTIFICATE''), (''key'', ''PRIVATE KEY'')]"
    by (simp_all add: down_world_def null_login_world_def garbage_world_def empty_xml_world_def
        expired_world_def write_denied_world_def sim_world_def)
  have c1: "CreateServiceTA sim_env sim_afip ''wsfe'' (down_world, []) =
     (Inl (JsError ''Error'' ''connect ECONNREFUSED''), (down_world, issue_events))"
    using run [OF files(1), of "[]", THEN conjunct1, rule_format,
        of "JsError ''Error'' ''connect ECONNREFUSED''"]
    by (simp add: sim_login_trace) (simp add: down_world_def)
  have c2: "CreateServiceTA sim_env sim_afip ''wsfe'' (null_login_world, []) =
     (Inl (TypeError ''null''), (null_login_world, issue_events))"
    using run [OF files(2), of "[]", THEN conjunct2, THEN conjunct1, rule_format,
        of JNull "TypeError ''null''"]
    by (simp add: sim_login_trace) (simp add: null_login_world_def)
  have c3: "CreateServiceTA sim_env sim_afip ''wsfe'' (garbage_world, []) =
     (Inl (JsError ''Error'' ''Non-whitespace before first tag.''), (garbage_world, issue_events))"
    using run [OF files(3), of "[]", THEN conjunct2, THEN conjunct2, THEN conjunct1, rule_format,
        of "JObj [(''loginCmsReturn'', JStr ''garbage'')]" "JStr ''garbage''"
           "JsError ''Error'' ''Non-whitespace before first tag.''"]
    by (simp add: sim_login_trace)
       (simp add: garbage_world_def sim_world_def login_answer_def sim_env_def sim_xml_def)
  have c4: "CreateServiceTA sim_env sim_afip ''wsfe'' (empty_xml_world, []) =
     (Inl (TypeError ''null''), (empty_xml_world, issue_events))"
    using run [OF files(4), of "[]", THEN conjunct2, THEN conjunct2, THEN conjunct2, THEN conjunct1,
        rule_format, of "JObj [(''loginCmsReturn'', JStr ''empty'')]" "JStr ''empty''" JNull
           "TypeError ''null''"]
    by (simp add: sim_login_trace)
       (simp add: empty_xml_world_def sim_world_def login_answer_def sim_env_def sim_xml_def)
  have c5: "CreateServiceTA sim_env sim_afip ''wsfe'' (expired_world, []) =
     (Inr (), (sim_world [(wsfe_key, JSON_text fresh_record), (wsfe_key, JSON_text stale_record)] ''fresh'',
               issue_events @ [S3Put wsfe_key (Some (JSON_text fresh_record))]))"
    using run [OF files(5), of "[]", THEN conjunct2, THEN conjunct2, THEN conjunct2, THEN conjunct2,
        THEN conjunct1, rule_format, of "JObj [(''loginCmsReturn'', JStr ''fresh'')]" "JStr ''fresh''"
           "JObj [(''loginticketresponse'', fresh_record)]" fresh_record
           "sim_world [(wsfe_key, JSON_text fresh_record), (wsfe_key, JSON_text stale_record)] ''fresh''"]
    by (simp add: sim_login_trace wsfe_key)
       (simp add: expired_world_def sim_world_def login_answer_def sim_env_def sim_xml_def sim_docs_defined)
  have c6: "CreateServiceTA sim_env sim_afip ''wsfe'' (write_denied_world, []) =
     (Inl (Thrown JUndefined),
      (write_denied_world, issue_events @ [S3Put wsfe_key (Some (JSON_text fresh_record))]))"
    using run [OF files(6), of "[]", THEN conjunct2, THEN conjunct2, THEN conjunct2, THEN conjunct2,
        THEN conjunct2, rule_format, of "JObj [(''loginCmsReturn'', JStr ''fresh'')]" "JStr ''fresh''"
           "JObj [(''loginticketresponse'', fresh_record)]" fresh_record AccessDenied write_denied_world]
    by (simp add: sim_login_trace wsfe_key)
       (simp add: write_denied_world_def sim_world_def login_answer_def sim_env_def sim_xml_def sim_docs_defined)
  have "S3Put wsfe_key (Some (JSON_text fresh_record))
      \<in> set (new_events (expired_world, []) (CreateServiceTA sim_env sim_afip ''wsfe'' (expired_world, [])))"
    by (simp add: c5 new_events_def)
  then have c7: "\<exists>pre x. new_events (expired_world, []) (CreateServiceTA sim_env sim_afip ''wsfe'' (expired_world, []))
          = pre @ [S3Put wsfe_key (Some (JSON_text fresh_record))]
        \<and> LoginCms x \<in> set pre \<and> filter is_S3Put pre = []"
    using issuance_writes_after_parse [where E = sim_env and A = sim_afip and service = "''wsfe''"
        and s = "(expired_world, [])", THEN conjunct1, rule_format,
        of wsfe_key "Some (JSON_text fresh_record)"]
    by blast
  show ?thesis
    using c1 c2 c3 c4 c5 c6 c7 by blast
qed

lemma sim_absent:
  "read_afipDataToken sim_env k (sim_world [] tag, tr) = (Inr JNull, (sim_world [] tag, tr @ [S3Get k]))"
  by (rule read_error_swallowed [where n = "''NoSuchKey''" and m = "''The specified key does not exist.''"])
     (simp add: readFileS3_def sim_env_def sim_world_def NoSuchKey_def)

lemma sim_stored_partial:
  "stored_ticket sim_env 1790000000000 partial_record = Inr (Some \<lparr> token = JStr ''T2'', sign = JUndefined \<rparr>)"
  by (simp add: stored_ticket_def sim_records sim_new_Date sim_dates_def)

text \<open>
  Claim C7 as stated fails on a login answer that parses but carries no sign:
  the record is written under the ticket key as it is, and the call that asked
  for the ticket then returns \<open>undefined\<close> for the sign.
\<close>

theorem partial_ticket_is_stored:
  "get_prop partial_record ''credentials'' = Inr (JObj [(''token'', JStr ''T2'')])
   \<and> get_prop (JObj [(''token'', JStr ''T2'')]) ''sign'' = Inr JUndefined
   \<and> CreateServiceTA sim_env sim_afip ''wsfe'' (partial_world, []) =
       (Inr (), (sim_world [(wsfe_key, JSON_text partial_record)] ''partial'',
                 issue_events @ [S3Put wsfe_key (Some (JSON_text partial_record))]))
   \<and> GetServiceTA sim_env sim_afip ''wsfe'' True (partial_world, []) =
       (Inr \<lparr> token = JStr ''T2'', sign = JUndefined \<rparr>,
        (sim_world [(wsfe_key, JSON_text partial_record)] ''partial'',
         [S3Get wsfe_key] @ issue_events @ [S3Put wsfe_key (Some (JSON_text partial_record)), S3Get wsfe_key]))"
proof -
  let ?w = "sim_world [(wsfe_key, JSON_text partial_record)] ''partial''"
  have issue: "CreateServiceTA sim_env sim_afip ''wsfe'' (partial_world, tr) =
       (Inr (), (?w, tr @ issue_events @ [S3Put wsfe_key (Some (JSON_text partial_record))]))" for tr
    unfolding partial_world_def
    by (simp add: sim_CreateServiceTA [OF sim_xml_tags(3) sim_docs_defined(3)])
  have r1: "read_afipDataToken sim_env (taFilePath sim_afip ''wsfe'') (partial_world, []) =
      (Inr JNull, (partial_world, [S3Get wsfe_key]))"
    unfolding partial_world_def using sim_absent [of wsfe_key "''partial''" "[]"] by (simp add: wsfe_key)
  have r2: "readFileS3 sim_env (taFilePath sim_afip ''wsfe'') (?w, tr) = (Inr partial_record, (?w, tr @ [S3Get wsfe_key]))" for tr
    unfolding wsfe_key
    by (rule sim_read_world [where body = "JSON_text partial_record"])
       (simp_all add: sim_parse_partial sim_docs_nonempty)
  have second: "GetServiceTA sim_env sim_afip ''wsfe'' False (?w, tr) =
      (Inr \<lparr> token = JStr ''T2'', sign = JUndefined \<rparr>, (?w, tr @ [S3Get wsfe_key]))" for tr
    by (simp add: GetServiceTA_found [OF r2] sim_clock sim_stored_partial)
  show ?thesis
    using issue [of "[]"]
    by (simp add: GetServiceTA_absent(1) [OF r1] issue second)
       (simp add: sim_records)
qed

section \<open>The billing services\<close>

lemmas checkErrors_wsfe_defs = checkErrors_wsfe_def observed_errors_def thrown_errors_def

lemma map_of_set_own: "map_of (set_own kvs k v) k = Some v"
  by (induction kvs k v rule: set_own.induct) simp_all

lemma map_of_set_own_other: "k' \<noteq> k \<Longrightarrow> map_of (set_own kvs k v) k' = map_of kvs k'"
  by (induction kvs k v rule: set_own.induct) simp_all

lemma get_prop_set_prop: "get_prop (set_prop (JObj kvs) k v) k = Inr v"
  by (simp add: map_of_set_own)

lemma truthy_JObj: "get_prop v k = Inr x \<Longrightarrow> x \<noteq> JUndefined \<Longrightarrow> \<exists>kvs. v = JObj kvs"
  by (cases v) (simp_all add: TypeError_def)

lemma wsfex_key: "taFilePath sim_afip ''wsfex'' = wsfex_key"
  by (simp add: taFilePath_def sim_afip_def dec_int_def wsfex_key_def)

lemma billing_ticket:
  "GetServiceTA sim_env sim_afip service True (billing_world (taFilePath sim_afip service) reply, tr) =
     (Inr T1S1, (billing_world (taFilePath sim_afip service) reply, tr @ [S3Get (taFilePath sim_afip service)]))"
proof -
  let ?w = "billing_world (taFilePath sim_afip service) reply"
  have rd: "readFileS3 sim_env (taFilePath sim_afip service) (?w, tr) =
      (Inr fresh_record, (?w, tr @ [S3Get (taFilePath sim_afip service)]))"
    by (rule sim_read [where body = "JSON_text fresh_record"])
       (simp_all add: billing_world_def sim_world_sel sim_parse_fresh sim_docs_nonempty)
  have clock: "Date_now sim_env ?w = 1790000000000"
    by (simp add: billing_world_def sim_env_def sim_world_def)
  show ?thesis
    by (simp add: GetServiceTA_found [OF rd] clock sim_stored_fresh)
qed

lemma billing_call:
  "ws_executeRequest sim_env service operation params (billing_world key reply) =
     (Inr reply, billing_world key reply)"
  by (simp add: sim_env_def billing_world_def)

lemma sim_Auth: "[(''Auth'', JObj (Auth sim_afip T1S1))] = sim_Auth"
  by (simp add: Auth_def sim_afip_def T1S1_def sim_Auth_def)

text \<open>
  Claim C6 on the code: the health check of export billing, \<open>getServerStatus\<close>,
  sends the operation \<open>FEXDummy\<close>, while \<open>getWSInitialRequest\<close> of that class
  exempts the name \<open>FEDummy\<close>. So the health check reads the store for a ticket
  and sends \<open>Auth\<close> with the call, whereas the domestic class sends \<open>FEDummy\<close>
  without either.
\<close>

theorem export_health_check_fetches_ticket:
  "getServerStatus_wsfex sim_env sim_afip (billing_world wsfex_key (JObj [(''FEXDummyResult'', server_status)]), []) =
     (Inr server_status,
      (billing_world wsfex_key (JObj [(''FEXDummyResult'', server_status)]),
       [S3Get wsfex_key, WsCall ''wsfex'' ''FEXDummy'' sim_Auth]))
   \<and> executeRequest_wsfe sim_env sim_afip ''FEDummy'' [] (billing_world wsfe_key (JObj [(''FEDummyResult'', server_status)]), []) =
     (Inr server_status,
      (billing_world wsfe_key (JObj [(''FEDummyResult'', server_status)]),
       [WsCall ''wsfe'' ''FEDummy'' []]))"
proof -
  have export: "getWSInitialRequest_wsfex sim_env sim_afip ''FEXDummy'' [] (billing_world wsfex_key reply, []) =
      (Inr sim_Auth, (billing_world wsfex_key reply, [S3Get wsfex_key]))" for reply
    using billing_ticket [of "''wsfex''" reply "[]"]
    by (simp add: getWSInitialRequest_wsfex_def wsfex_key sim_Auth)
  have c1: "checkErrors_wsfex sim_env ''FEXDummy'' (JObj [(''FEXDummyResult'', server_status)]) = Inr server_status"
    by (simp add: checkErrors_wsfex_def server_status_def)
  have c2: "checkErrors_wsfe ''FEDummy'' (JObj [(''FEDummyResult'', server_status)]) = Inr server_status"
    by (simp add: checkErrors_wsfe_defs server_status_def)
  show ?thesis
    by (simp add: getServerStatus_wsfex_def executeRequest_wsfex_def executeRequest_wsfe_def export
        getWSInitialRequest_wsfe_def billing_call c1 c2 sim_Auth_def)
qed

lemma executeRequest_wsfe_outcome:
  "answers_wsfe E A operation params s results \<Longrightarrow>
   fst (executeRequest_wsfe E A operation params s) = checkErrors_wsfe operation results"
  by (auto simp: answers_wsfe_def executeRequest_wsfe_def Let_def split: prod.splits sum.splits)

lemma executeRequest_wsfex_outcome:
  "answers_wsfex E A operation params s results \<Longrightarrow>
   fst (executeRequest_wsfex E A operation params s) = checkErrors_wsfex E operation results"
  by (auto simp: answers_wsfex_def executeRequest_wsfex_def Let_def split: prod.splits sum.splits)




lemma get_prop_set_prop_other:
  "k' \<noteq> k \<Longrightarrow> get_prop (set_prop (JObj kvs) k v) k' = get_prop (JObj kvs) k'"
  by (simp add: map_of_set_own_other)






lemma billing_answers_wsfe:
  "operation \<noteq> ''FEDummy'' \<Longrightarrow>
   answers_wsfe sim_env sim_afip operation params (billing_world wsfe_key reply, []) reply"
  using billing_ticket [of "''wsfe''" reply "[]"]
  by (simp add: answers_wsfe_def getWSInitialRequest_wsfe_def wsfe_key billing_call)

lemma billing_answers_wsfex:
  "operation \<noteq> ''FEDummy'' \<Longrightarrow>
   answers_wsfex sim_env sim_afip operation params (billing_world wsfex_key reply, []) reply"
  using billing_ticket [of "''wsfex''" reply "[]"]
  by (simp add: answers_wsfex_def getWSInitialRequest_wsfex_def wsfex_key billing_call)


lemma thrown_errors_unchanged: "thrown_errors r = Inr v \<Longrightarrow> v = r"
  by (auto simp: thrown_errors_def andThen_Inr split: if_splits)

lemma thrown_errors_set:
  "\<exists>kvs. r = JObj kvs \<Longrightarrow> thrown_errors (set_prop r ''Errors'' (JObj e)) \<noteq> Inr v"
  by (auto simp: thrown_errors_def map_of_set_own andThen_Inr)

lemma first_detail_not_array:
  "get_prop res ''FeDetResp'' = Inr fe \<Longrightarrow> get_prop fe ''FECAEDetResponse'' = Inr det \<Longrightarrow>
   \<not> isArray det \<Longrightarrow> first_detail res = res"
  by (cases det) (simp_all add: first_detail_def)

lemma first_detail_array:
  "get_prop res ''FeDetResp'' = Inr fe \<Longrightarrow> get_prop fe ''FECAEDetResponse'' = Inr (JArr xs) \<Longrightarrow>
   index (JArr xs) 0 = Inr d \<Longrightarrow>
   first_detail res = set_prop res ''FeDetResp'' (set_prop fe ''FECAEDetResponse'' d)"
  by (cases xs) (auto simp: first_detail_def)

lemma first_detail_falsy:
  "get_prop res ''FeDetResp'' = Inr fe \<Longrightarrow> \<not> truthy fe \<Longrightarrow> first_detail res = res"
  by (cases fe) (simp_all add: first_detail_def TypeError_def)

lemma observed_errors_cases:
  assumes "observed_errors res = Inr r2"
  shows "r2 = first_detail res
     \<or> ((\<exists>e. r2 = set_prop (first_detail res) ''Errors'' (JObj e)) \<and> (\<exists>kvs. first_detail res = JObj kvs))"
proof -
  obtain fe where fe: "get_prop res ''FeDetResp'' = Inr fe"
    using assms by (auto simp: observed_errors_def andThen_Inr)
  show ?thesis
  proof (cases "truthy fe")
    case False
    then show ?thesis
      using assms fe first_detail_falsy [OF fe False] by (simp add: observed_errors_def)
  next
    case True
    then have "fe \<noteq> JUndefined" by auto
    then obtain rkvs where res: "res = JObj rkvs"
      using truthy_JObj [OF fe] by blast
    obtain det where det: "get_prop fe ''FECAEDetResponse'' = Inr det"
      using True by (cases fe) simp_all
    show ?thesis
    proof (cases "isArray det")
      case scalar: False
      have fd: "first_detail res = res"
        by (rule first_detail_not_array [OF fe det scalar])
      have obj: "\<exists>kvs. first_detail res = JObj kvs"
        unfolding fd by (simp add: res)
      have "observed_errors res =
          andThen (get_prop det ''Observaciones'') (\<lambda>obs.
            if truthy obs then
              andThen (get_prop det ''Resultado'') (\<lambda>resultado.
              if \<not> strict_eq resultado (JStr ''A'') then
                andThen (get_prop obs ''Obs'') (\<lambda>ob.
                Inr (set_prop (first_detail res) ''Errors'' (JObj [(''Err'', ob)])))
              else Inr (first_detail res))
            else Inr (first_detail res))"
        unfolding fd using scalar by (simp add: observed_errors_def fe True det)
      note chain = this
      show ?thesis
        using assms [unfolded chain] obj by (auto simp: andThen_Inr split: if_splits)
    next
      case arr: True
      then obtain xs where xs: "det = JArr xs" by (cases det) simp_all
      obtain d where d: "index (JArr xs) 0 = Inr d" by simp
      have fd: "first_detail res = set_prop res ''FeDetResp'' (set_prop fe ''FECAEDetResponse'' d)"
        by (rule first_detail_array [OF fe det [unfolded xs] d])
      have obj: "\<exists>kvs. first_detail res = JObj kvs"
        unfolding fd by (simp add: res)
      have "observed_errors res =
          andThen (get_prop d ''Observaciones'') (\<lambda>obs.
            if truthy obs then
              andThen (get_prop d ''Resultado'') (\<lambda>resultado.
              if \<not> strict_eq resultado (JStr ''A'') then
                andThen (get_prop obs ''Obs'') (\<lambda>ob.
                Inr (set_prop (first_detail res) ''Errors'' (JObj [(''Err'', ob)])))
              else Inr (first_detail res))
            else Inr (first_detail res))"
        unfolding fd using d by (simp add: observed_errors_def fe True det xs Let_def del: index.simps)
      note chain = this
      show ?thesis
        using assms [unfolded chain] obj by (auto simp: andThen_Inr split: if_splits)
    qed
  qed
qed

lemma checkErrors_wsfe_unchanged:
  assumes "checkErrors_wsfe operation results = Inr v"
    and "get_prop results (operation @ ''Result'') = Inr res"
  shows "v = (if operation = ''FECAESolicitar'' then first_detail res else res)"
proof (cases "operation = ''FECAESolicitar''")
  case False
  then show ?thesis
    using assms by (auto simp: checkErrors_wsfe_def dest: thrown_errors_unchanged)
next
  case True
  then obtain r2 where r2: "observed_errors res = Inr r2" and tl: "thrown_errors r2 = Inr v"
    using assms by (auto simp: checkErrors_wsfe_def andThen_Inr)
  have "r2 = first_detail res"
    using observed_errors_cases [OF r2] tl thrown_errors_set by blast
  then show ?thesis
    using tl True by (auto dest: thrown_errors_unchanged)
qed

lemma checkErrors_wsfex_unchanged:
  "checkErrors_wsfex E operation results = Inr v \<Longrightarrow>
   get_prop results (operation @ ''Result'') = Inr res \<Longrightarrow> v = res"
  by (auto simp: checkErrors_wsfex_def andThen_Inr split: if_splits)

text \<open>
  Claim C8, amended. When no error is raised, \<open>executeRequest\<close> returns the
  value keyed \<open><operation>Result\<close> in the response. For wsfex, and for every
  wsfe operation but \<open>FECAESolicitar\<close>, it is returned unchanged. For
  \<open>FECAESolicitar\<close> an array-shaped \<open>FeDetResp.FECAEDetResponse\<close> has been
  replaced by its first element; nothing else is changed.
\<close>

theorem result_subtree_returned:
  "(answers_wsfe E A operation params s results
      \<and> get_prop results (operation @ ''Result'') = Inr res
      \<and> fst (executeRequest_wsfe E A operation params s) = Inr v
      \<longrightarrow> v = (if operation = ''FECAESolicitar'' then first_detail res else res))
   \<and> (answers_wsfex E A operation params s results
      \<and> get_prop results (operation @ ''Result'') = Inr res
      \<and> fst (executeRequest_wsfex E A operation params s) = Inr v
      \<longrightarrow> v = res)"
  using executeRequest_wsfe_outcome [of E A operation params s results]
    executeRequest_wsfex_outcome [of E A operation params s results]
    checkErrors_wsfe_unchanged [of operation results v res]
    checkErrors_wsfex_unchanged [of E operation results v res]
  by auto

text \<open>
  Claim C8 as stated fails on an accepted \<open>FECAESolicitar\<close> whose detail comes
  as an array of one element: no error is raised, and the subtree returned has
  the array replaced by that element.
\<close>

theorem accepted_detail_is_unwrapped:
  "get_prop accepted_reply ''FECAESolicitarResult'' = Inr accepted_subtree
   \<and> fst (executeRequest_wsfe sim_env sim_afip ''FECAESolicitar'' []
            (billing_world wsfe_key accepted_reply, [])) =
       Inr (JObj [(''FeCabResp'', JObj [(''Resultado'', JStr ''A'')]),
                  (''FeDetResp'', JObj [(''FECAEDetResponse'', accepted_detail)])])
   \<and> JObj [(''FeCabResp'', JObj [(''Resultado'', JStr ''A'')]),
            (''FeDetResp'', JObj [(''FECAEDetResponse'', accepted_detail)])] \<noteq> accepted_subtree"
proof -
  have "checkErrors_wsfe ''FECAESolicitar'' accepted_reply =
       Inr (JObj [(''FeCabResp'', JObj [(''Resultado'', JStr ''A'')]),
                  (''FeDetResp'', JObj [(''FECAEDetResponse'', accepted_detail)])])"
    by (simp add: checkErrors_wsfe_defs accepted_reply_def accepted_subtree_def accepted_detail_def)
  then show ?thesis
    using executeRequest_wsfe_outcome [OF billing_answers_wsfe, of "''FECAESolicitar''" "[]" accepted_reply]
    by (simp add: accepted_reply_def accepted_subtree_def accepted_detail_def)
qed

theorem result_subtree_returned_witness:
  "fst (executeRequest_wsfe sim_env sim_afip ''FECompUltimoAutorizado'' [(''PtoVta'', JNum 1), (''CbteTipo'', JNum 6)]
          (billing_world wsfe_key last_voucher_reply, [])) = Inr last_voucher_subtree
   \<and> fst (executeRequest_wsfe sim_env sim_afip ''FECAESolicitar'' []
          (billing_world wsfe_key accepted_reply, [])) = Inr (first_detail accepted_subtree)
   \<and> fst (executeRequest_wsfex sim_env sim_afip ''FEXGetLast_CMP'' [(''Pto_venta'', JNum 1), (''Cbte_Tipo'', JNum 19)]
          (billing_world wsfex_key fex_ok_reply, [])) = Inr fex_ok_subtree"
proof -
  let ?p1 = "[(''PtoVta'', JNum 1), (''CbteTipo'', JNum 6)]"
  let ?p3 = "[(''Pto_venta'', JNum 1), (''Cbte_Tipo'', JNum 19)]"
  have a1: "answers_wsfe sim_env sim_afip ''FECompUltimoAutorizado'' ?p1 (billing_world wsfe_key last_voucher_reply, []) last_voucher_reply"
    by (rule billing_answers_wsfe) simp
  have a2: "answers_wsfe sim_env sim_afip ''FECAESolicitar'' [] (billing_world wsfe_key accepted_reply, []) accepted_reply"
    by (rule billing_answers_wsfe) simp
  have a3: "answers_wsfex sim_env sim_afip ''FEXGetLast_CMP'' ?p3 (billing_world wsfex_key fex_ok_reply, []) fex_ok_reply"
    by (rule billing_answers_wsfex) simp
  have r1: "get_prop last_voucher_reply (''FECompUltimoAutorizado'' @ ''Result'') = Inr last_voucher_subtree"
    by (simp add: last_voucher_reply_def)
  have r2: "get_prop accepted_reply (''FECAESolicitar'' @ ''Result'') = Inr accepted_subtree"
    by (simp add: accepted_reply_def)
  have r3: "get_prop fex_ok_reply (''FEXGetLast_CMP'' @ ''Result'') = Inr fex_ok_subtree"
    by (simp add: fex_ok_reply_def)
  obtain v1 where v1: "fst (executeRequest_wsfe sim_env sim_afip ''FECompUltimoAutorizado'' ?p1
      (billing_world wsfe_key last_voucher_reply, [])) = Inr v1"
    using executeRequest_wsfe_outcome [OF a1]
    by (simp add: checkErrors_wsfe_defs last_voucher_reply_def last_voucher_subtree_def)
  obtain v2 where v2: "fst (executeRequest_wsfe sim_env sim_afip ''FECAESolicitar'' []
      (billing_world wsfe_key accepted_reply, [])) = Inr v2"
    using executeRequest_wsfe_outcome [OF a2]
    by (simp add: checkErrors_wsfe_defs accepted_reply_def accepted_subtree_def accepted_detail_def)
  obtain v3 where v3: "fst (executeRequest_wsfex sim_env sim_afip ''FEXGetLast_CMP'' ?p3
      (billing_world wsfex_key fex_ok_reply, [])) = Inr v3"
    using executeRequest_wsfex_outcome [OF a3]
    by (simp add: checkErrors_wsfex_def fex_ok_reply_def fex_ok_subtree_def)
  have "v1 = last_voucher_subtree"
    using result_subtree_returned [of sim_env sim_afip "''FECompUltimoAutorizado''" ?p1
        "(billing_world wsfe_key last_voucher_reply, [])" last_voucher_reply last_voucher_subtree v1]
      a1 r1 v1 by simp
  moreover have "v2 = first_detail accepted_subtree"
    using result_subtree_returned [of sim_env sim_afip "''FECAESolicitar''" "[]"
        "(billing_world wsfe_key accepted_reply, [])" accepted_reply accepted_subtree v2]
      a2 r2 v2 by simp
  moreover have "v3 = fex_ok_subtree"
    using result_subtree_returned [of sim_env sim_afip "''FEXGetLast_CMP''" ?p3
        "(billing_world wsfex_key fex_ok_reply, [])" fex_ok_reply fex_ok_subtree v3]
      a3 r3 v3 by simp
  ultimately show ?thesis
    using v1 v2 v3 by simp
qed

end
